theory Spec2Isabelle
  imports Complex_Main "HOL-Library.Word" "HOL-Library.Multiset"
begin

section \<open>Data model of the peer discovery core\<close>

text \<open>
  The development follows \<^verbatim>\<open>src/server/node_discovery.py\<close>. A \<^verbatim>\<open>PeerInfo\<close> is a host
  and a port, a \<^verbatim>\<open>TimestampedPeerInfo\<close> adds the time the peer was last seen. Python's
  integers are unbounded, so timestamps are \<open>int\<close>. The clock \<^verbatim>\<open>time.time()\<close> returns a
  float number of seconds; it is read as a \<open>real\<close> here, which ignores the rounding of
  floating point. One clock reading stands for all readings taken inside one handler
  invocation where no suspension point lies between them.
\<close>

record peer_info =
  host :: string
  port :: nat

record timestamped_peer_info = peer_info +
  timestamp :: int

text \<open>The exceptions a handler can meet: a failed conversion, or a failure raised by a
  collaborator (address manager, store, transport) that is not part of this module.\<close>

datatype exn = ValueError | OverflowError | Raised string

text \<open>Python's \<^verbatim>\<open>int(x)\<close> on a float truncates towards zero.\<close>

definition py_int :: "real \<Rightarrow> int" where
  "py_int x = (if 0 \<le> x then \<lfloor>x\<rfloor> else \<lceil>x\<rceil>)"

text \<open>Modelled from the spec: the type \<^verbatim>\<open>uint64\<close> of \<^verbatim>\<open>src/util/ints.py\<close> is not part of
  the sources at hand. The specification calls it a 64-bit unsigned number of seconds; a
  value outside \<open>0 .. 2^64 - 1\<close> has no such representation and the conversion raises.\<close>

definition uint64 :: "int \<Rightarrow> exn + int" where
  "uint64 v = (if 0 \<le> v \<and> v < 2 ^ 64 then Inr v else Inl ValueError)"

text \<open>The calls a handler makes on the address manager. The manager itself
  (\<^verbatim>\<open>src/server/address_manager.py\<close>) is a collaborator; the model records which call is
  made with which arguments.\<close>

datatype am_call =
    AddToNewTable "timestamped_peer_info list" "peer_info option" int
  | MarkGood peer_info bool
  | Connect peer_info
  | Attempt peer_info bool

section \<open>Ingest of a received peer list\<close>

text \<open>
  \<^verbatim>\<open>_respond_peers_common\<close>, the body of its loop for one peer: an invalid timestamp is
  replaced by five days ago; after that, a list that does not come from a full node has
  every timestamp replaced by 0.
\<close>

definition adjust_timestamp ::
  "real \<Rightarrow> bool \<Rightarrow> timestamped_peer_info \<Rightarrow> exn + timestamped_peer_info" where
  "adjust_timestamp now is_full_node peer =
     (case (if real_of_int (timestamp peer) < 100000000
               \<or> real_of_int (timestamp peer) > now + 10 * 60
            then (case uint64 (py_int (now - 5 * 24 * 60 * 60)) of
                    Inl e \<Rightarrow> Inl e
                  | Inr t \<Rightarrow> Inr \<lparr>host = host peer, port = port peer, timestamp = t\<rparr>)
            else Inr peer) of
        Inl e \<Rightarrow> Inl e
      | Inr current_peer \<Rightarrow>
          (if \<not> is_full_node
           then (case uint64 0 of
                   Inl e \<Rightarrow> Inl e
                 | Inr t \<Rightarrow> Inr \<lparr>host = host peer, port = port peer, timestamp = t\<rparr>)
           else Inr current_peer))"

fun adjust_peers ::
  "real \<Rightarrow> bool \<Rightarrow> timestamped_peer_info list \<Rightarrow> exn + timestamped_peer_info list" where
  "adjust_peers now is_full_node [] = Inr []"
| "adjust_peers now is_full_node (peer # peers) =
     (case adjust_timestamp now is_full_node peer of
        Inl e \<Rightarrow> Inl e
      | Inr current_peer \<Rightarrow>
          (case adjust_peers now is_full_node peers of
             Inl e \<Rightarrow> Inl e
           | Inr rest \<Rightarrow> Inr (current_peer # rest)))"

text \<open>The whole of \<^verbatim>\<open>_respond_peers_common\<close>: the call it makes on the address manager,
  or the exception that ended it before the call.\<close>

definition respond_peers_common ::
  "real \<Rightarrow> timestamped_peer_info list \<Rightarrow> peer_info option \<Rightarrow> bool \<Rightarrow> exn + am_call" where
  "respond_peers_common now peer_list peer_src is_full_node =
     (case adjust_peers now is_full_node peer_list of
        Inl e \<Rightarrow> Inl e
      | Inr peers_adjusted_timestamp \<Rightarrow>
          (if is_full_node
           then Inr (AddToNewTable peers_adjusted_timestamp peer_src (2 * 60 * 60))
           else Inr (AddToNewTable peers_adjusted_timestamp None 0)))"

text \<open>What the claims about ingest compare the code with: the outcome for one peer from a
  full node, and the outcome for one peer from any other source.\<close>

definition sanitized :: "real \<Rightarrow> timestamped_peer_info \<Rightarrow> timestamped_peer_info" where
  "sanitized now peer =
     (if real_of_int (timestamp peer) < 100000000 \<or> real_of_int (timestamp peer) > now + 600
      then \<lparr>host = host peer, port = port peer, timestamp = py_int (now - 432000)\<rparr>
      else peer)"

definition zeroed :: "timestamped_peer_info \<Rightarrow> timestamped_peer_info" where
  "zeroed peer = \<lparr>host = host peer, port = port peer, timestamp = 0\<rparr>"

section \<open>The message inbox\<close>

text \<open>
  \<^verbatim>\<open>_process_messages\<close> keeps a dictionary \<^verbatim>\<open>connection_time_pretest\<close> from hosts to clock
  readings; a \<^verbatim>\<open>FullNodePeers\<close> object also owns a relay queue, which a plain
  \<^verbatim>\<open>FullNodeDiscovery\<close> does not (\<^verbatim>\<open>relay_queue\<close> is \<^verbatim>\<open>None\<close>).
\<close>

record inbox_state =
  connection_time_pretest :: "string \<rightharpoonup> real"
  relay_queue :: "(timestamped_peer_info \<times> nat) list option"

text \<open>One item taken from the message queue, with what the environment does while it is
  handled: the clock reading when the handling starts, the clock reading once an awaited
  \<^verbatim>\<open>connect\<close> has returned (line 101 reads the clock again, after the suspension of line
  100), and for each call on the address manager the exception it raises, if any.\<close>

record queue_item =
  raises :: "am_call \<Rightarrow> exn option"
  clock :: real
  clock_after :: real
  message :: string
  subject :: "peer_info option"

text \<open>Awaiting calls on the address manager one after the other: the calls that were
  made, and the exception of the first one that raised.\<close>

fun am_calls :: "(am_call \<Rightarrow> exn option) \<Rightarrow> am_call list \<Rightarrow> am_call list \<times> exn option" where
  "am_calls rs [] = ([], None)"
| "am_calls rs (c # cs) =
     (case rs c of
        Some e \<Rightarrow> ([c], Some e)
      | None \<Rightarrow> (case am_calls rs cs of (made, r) \<Rightarrow> (c # made, r)))"

text \<open>The body of the \<^verbatim>\<open>try\<close> block of \<^verbatim>\<open>_process_messages\<close> for one item: the new state,
  the calls made on the address manager, and the exception that left the block, if any.\<close>

definition process_message_body ::
  "queue_item \<Rightarrow> inbox_state \<Rightarrow> inbox_state \<times> am_call list \<times> exn option" where
  "process_message_body item st =
     (case subject item of
        None \<Rightarrow> (st, [], None)
      | Some peer \<Rightarrow>
          if port peer = 0 then (st, [], None)
          else if message item = ''make_tried'' then
            (case am_calls (raises item) [MarkGood peer True, Connect peer] of
               (made, r) \<Rightarrow> (st, made, r))
          else if message item = ''mark_attempted'' then
            (case am_calls (raises item) [Attempt peer True] of
               (made, r) \<Rightarrow> (st, made, r))
          else if message item = ''mark_attempted_soft'' then
            (case am_calls (raises item) [Attempt peer False] of
               (made, r) \<Rightarrow> (st, made, r))
          else if message item = ''update_connection_time'' then
            (let recorded = (case connection_time_pretest st (host peer) of
                               None \<Rightarrow> clock item
                             | Some t \<Rightarrow> t);
                 st1 = st\<lparr>connection_time_pretest :=
                          (connection_time_pretest st)(host peer \<mapsto> recorded)\<rparr>
             in if clock item - recorded > 60 then
                  (case am_calls (raises item) [Connect peer] of
                     (made, Some e) \<Rightarrow> (st1, made, Some e)
                   | (made, None) \<Rightarrow>
                       (st1\<lparr>connection_time_pretest :=
                              (connection_time_pretest st1)(host peer \<mapsto> clock_after item)\<rparr>,
                        made, None))
                else (st1, [], None))
          else if message item = ''new_inbound_connection'' then
            (case uint64 (py_int (clock item)) of
               Inl e \<Rightarrow> (st, [], Some e)
             | Inr t \<Rightarrow>
                 (let timestamped_peer_info =
                        \<lparr>host = host peer, port = port peer, timestamp = t\<rparr>
                  in case am_calls (raises item)
                            [AddToNewTable [timestamped_peer_info] (Some peer) 0,
                             MarkGood peer True] of
                       (made, Some e) \<Rightarrow> (st, made, Some e)
                     | (made, None) \<Rightarrow>
                         (case relay_queue st of
                            None \<Rightarrow> (st, made, None)
                          | Some q \<Rightarrow>
                              (st\<lparr>relay_queue := Some (q @ [(timestamped_peer_info, 1)])\<rparr>,
                               made, None))))
          else (st, [], None))"

text \<open>What one turn of the loop leaves in the record of the run: when it ran, for which
  message, the calls it made and the exception its \<^verbatim>\<open>except\<close> clause logged.\<close>

record inbox_entry =
  entry_at :: real
  entry_message :: string
  entry_calls :: "am_call list"
  entry_logged :: "exn option"

text \<open>The loop of \<^verbatim>\<open>_process_messages\<close> over the items delivered until the object is
  closed. The \<^verbatim>\<open>except\<close> clause logs the exception and the loop goes on with the next
  item.\<close>

fun process_messages :: "inbox_state \<Rightarrow> queue_item list \<Rightarrow> inbox_state \<times> inbox_entry list" where
  "process_messages st [] = (st, [])"
| "process_messages st (item # items) =
     (case process_message_body item st of
        (st1, made, logged) \<Rightarrow>
          (case process_messages st1 items of
             (st2, entries) \<Rightarrow>
               (st2, \<lparr>entry_at = clock item, entry_message = message item,
                      entry_calls = made, entry_logged = logged\<rparr> # entries)))"

text \<open>The \<^verbatim>\<open>connect\<close> calls that \<^verbatim>\<open>update_connection_time\<close> items caused, each with the
  clock reading of its item, the peer, and whether the call returned (no exception was
  logged for the item).\<close>

definition update_connects :: "inbox_entry list \<Rightarrow> (real \<times> peer_info \<times> bool) list" where
  "update_connects entries =
     concat (map (\<lambda>e. if entry_message e = ''update_connection_time''
                       then concat (map (\<lambda>c. case c of
                                                Connect p \<Rightarrow> [(entry_at e, p, entry_logged e = None)]
                                              | _ \<Rightarrow> [])
                                        (entry_calls e))
                       else [])
                 entries)"

text \<open>An item that reaches the \<^verbatim>\<open>update_connection_time\<close> branch for a given host.\<close>

definition updates_host :: "string \<Rightarrow> queue_item \<Rightarrow> bool" where
  "updates_host h item =
     (case subject item of
        None \<Rightarrow> False
      | Some peer \<Rightarrow> port peer \<noteq> 0 \<and> message item = ''update_connection_time'' \<and> host peer = h)"

section \<open>Connections, messages and the neighbour-known sets\<close>

type_synonym byte = "8 word"

text \<open>What this module reads of a connection of the pool: the peer at its other end
  (\<^verbatim>\<open>get_peer_info()\<close>) and the node identifier, \<^verbatim>\<open>None\<close> until the handshake has set it.\<close>

record connection =
  conn_peer_info :: peer_info
  node_id :: "byte list option"

datatype node_type = FULL_NODE | WALLET | INTRODUCER

datatype delivery = RESPOND | BROADCAST | SPECIFIC

text \<open>An \<^verbatim>\<open>OutboundMessage\<close> whose \<^verbatim>\<open>Message\<close> carries a \<^verbatim>\<open>RespondPeers\<close> peer list.\<close>

record outbound_message =
  peer_type :: node_type
  message_function :: string
  message_peer_list :: "timestamped_peer_info list"
  delivery_method :: delivery
  specific_peer_node_id :: "byte list option"

text \<open>\<^verbatim>\<open>neighbour_known_peers\<close>: a dictionary from a neighbour's (host, port) to the set of
  peer hosts already advertised to it.\<close>

type_synonym neighbour_known = "(string \<times> nat) \<rightharpoonup> string set"


section \<open>Answering a request for peers\<close>


definition respond_peers_full_node ::
  "node_type \<Rightarrow> timestamped_peer_info list \<Rightarrow> delivery \<Rightarrow> byte list option \<Rightarrow> outbound_message" where
  "respond_peers_full_node target peers how node =
     \<lparr>peer_type = target, message_function = ''respond_peers_full_node'',
      message_peer_list = peers, delivery_method = how, specific_peer_node_id = node\<rparr>"


section \<open>The address relay\<close>

text \<open>Python's \<^verbatim>\<open>int.to_bytes(length, byteorder="big")\<close>, which raises \<^verbatim>\<open>OverflowError\<close> for
  a negative number and for one that does not fit, and \<^verbatim>\<open>int.from_bytes\<close> for the same
  byte order.\<close>

definition to_bytes :: "nat \<Rightarrow> int \<Rightarrow> exn + byte list" where
  "to_bytes len v =
     (if v < 0 \<or> 256 ^ len \<le> v then Inl OverflowError
      else Inr (map (\<lambda>i. word_of_int (v div 256 ^ (len - 1 - i))) [0..<len]))"

definition from_bytes :: "byte list \<Rightarrow> nat" where
  "from_bytes bs = foldl (\<lambda>acc b. acc * 256 + unat b) 0 bs"

text \<open>
  The hash of one neighbour. The hash function \<^verbatim>\<open>std_hash\<close> (\<^verbatim>\<open>src/util/hash.py\<close>) and
  \<^verbatim>\<open>PeerInfo.get_key\<close> (\<^verbatim>\<open>src/types/peer_info.py\<close>) are not part of the sources at hand and
  are parameters of the model.
\<close>

definition cur_hash ::
  "(byte list \<Rightarrow> byte list) \<Rightarrow> (peer_info \<Rightarrow> byte list) \<Rightarrow> int \<Rightarrow> int \<Rightarrow> connection \<Rightarrow> exn + nat" where
  "cur_hash std_hash get_key key cur_day connection =
     (case to_bytes 32 key of
        Inl e \<Rightarrow> Inl e
      | Inr key_bytes \<Rightarrow>
          (case to_bytes 3 cur_day of
             Inl e \<Rightarrow> Inl e
           | Inr day_bytes \<Rightarrow>
               Inr (from_bytes
                      (std_hash (key_bytes @ get_key (conn_peer_info connection) @ day_bytes)))))"

fun relay_hashes ::
  "(byte list \<Rightarrow> byte list) \<Rightarrow> (peer_info \<Rightarrow> byte list) \<Rightarrow> int \<Rightarrow> int \<Rightarrow> connection list \<Rightarrow>
     exn + (nat \<times> connection) list" where
  "relay_hashes std_hash get_key key cur_day [] = Inr []"
| "relay_hashes std_hash get_key key cur_day (connection # connections) =
     (case cur_hash std_hash get_key key cur_day connection of
        Inl e \<Rightarrow> Inl e
      | Inr h \<Rightarrow>
          (case relay_hashes std_hash get_key key cur_day connections of
             Inl e \<Rightarrow> Inl e
           | Inr hashes \<Rightarrow> Inr ((h, connection) # hashes)))"

text \<open>
  The loop over the sorted neighbours (lines 456 to 481), with its index: it stops at
  index \<^verbatim>\<open>num_peers\<close>; a neighbour that already knows the relayed host is passed over; any
  other has the host added to its set, and is sent the peer unless its \<^verbatim>\<open>node_id\<close> is
  \<^verbatim>\<open>None\<close>. The messages pushed to the server are collected in order.
\<close>

fun relay_loop ::
  "nat \<Rightarrow> nat \<Rightarrow> (nat \<times> connection) list \<Rightarrow> timestamped_peer_info \<Rightarrow> neighbour_known \<Rightarrow>
     neighbour_known \<times> outbound_message list" where
  "relay_loop index num_peers [] relay_peer known = (known, [])"
| "relay_loop index num_peers ((h, connection) # rest) relay_peer known =
     (if index \<ge> num_peers then (known, [])
      else
        (let peer_info = conn_peer_info connection;
             pair = (host peer_info, port peer_info)
         in if (case known pair of None \<Rightarrow> False | Some hosts \<Rightarrow> host relay_peer \<in> hosts)
            then relay_loop (index + 1) num_peers rest relay_peer known
            else
              (let known1 = (if known pair = None then known(pair \<mapsto> {}) else known);
                   known2 = (case known1 pair of
                               None \<Rightarrow> known1
                             | Some hosts \<Rightarrow> known1(pair \<mapsto> insert (host relay_peer) hosts))
               in case node_id connection of
                    None \<Rightarrow> relay_loop (index + 1) num_peers rest relay_peer known2
                  | Some node \<Rightarrow>
                      (case relay_loop (index + 1) num_peers rest relay_peer known2 of
                         (known3, msgs) \<Rightarrow>
                           (known3,
                            respond_peers_full_node FULL_NODE [relay_peer] SPECIFIC (Some node)
                              # msgs)))))"

text \<open>
  The body of the \<^verbatim>\<open>try\<close> block of \<^verbatim>\<open>_address_relay\<close> for one item of the relay queue:
  the neighbour-known sets afterwards, the messages pushed, and the exception that left
  the block, if any. Python's sort is stable, as \<open>sort_key\<close> is.
\<close>

definition address_relay_body ::
  "(byte list \<Rightarrow> byte list) \<Rightarrow> (peer_info \<Rightarrow> byte list) \<Rightarrow> int \<Rightarrow> real \<Rightarrow> connection list \<Rightarrow>
     timestamped_peer_info \<times> nat \<Rightarrow> neighbour_known \<Rightarrow>
     neighbour_known \<times> outbound_message list \<times> exn option" where
  "address_relay_body std_hash get_key key now connections item known =
     (case item of (relay_peer, num_peers) \<Rightarrow>
        (let cur_day = py_int now div (24 * 60 * 60)
         in case relay_hashes std_hash get_key key cur_day connections of
              Inl e \<Rightarrow> (known, [], Some e)
            | Inr hashes \<Rightarrow>
                (case relay_loop 0 num_peers (sort_key fst hashes) relay_peer known of
                   (known1, msgs) \<Rightarrow> (known1, msgs, None))))"

text \<open>In the specification's words: the hash \<open>h = H(key || neighbour key || cur_day)\<close> of a
  neighbour, read as a number, from the byte strings of the key and of the day.\<close>

definition neighbour_hash ::
  "(byte list \<Rightarrow> byte list) \<Rightarrow> (peer_info \<Rightarrow> byte list) \<Rightarrow> byte list \<Rightarrow> byte list \<Rightarrow> connection \<Rightarrow> nat" where
  "neighbour_hash std_hash get_key key_bytes day_bytes connection =
     from_bytes (std_hash (key_bytes @ get_key (conn_peer_info connection) @ day_bytes))"

text \<open>In the specification's words: the neighbours chosen are the first \<^verbatim>\<open>num_peers\<close> of
  the neighbours sorted ascending by their hash.\<close>

definition chosen_neighbours :: "(connection \<Rightarrow> nat) \<Rightarrow> nat \<Rightarrow> connection list \<Rightarrow> connection list" where
  "chosen_neighbours h num_peers connections = take num_peers (sort_key h connections)"

text \<open>In the specification's words: what the relay does with one chosen neighbour.\<close>

definition relay_to ::
  "timestamped_peer_info \<Rightarrow> connection \<Rightarrow> neighbour_known \<Rightarrow> neighbour_known \<times> outbound_message list" where
  "relay_to relay_peer connection known =
     (let pair = (host (conn_peer_info connection), port (conn_peer_info connection));
          hosts = (case known pair of None \<Rightarrow> {} | Some s \<Rightarrow> s)
      in if host relay_peer \<in> hosts then (known, [])
         else (known(pair \<mapsto> insert (host relay_peer) hosts),
               case node_id connection of
                 None \<Rightarrow> []
               | Some node \<Rightarrow> [respond_peers_full_node FULL_NODE [relay_peer] SPECIFIC (Some node)]))"

fun relay_to_all ::
  "timestamped_peer_info \<Rightarrow> connection list \<Rightarrow> neighbour_known \<Rightarrow> neighbour_known \<times> outbound_message list" where
  "relay_to_all relay_peer [] known = (known, [])"
| "relay_to_all relay_peer (connection # connections) known =
     (case relay_to relay_peer connection known of
        (known1, msgs1) \<Rightarrow>
          (case relay_to_all relay_peer connections known1 of
             (known2, msgs2) \<Rightarrow> (known2, msgs1 @ msgs2)))"

section \<open>The discovery loop\<close>

text \<open>\<^verbatim>\<open>_num_needed_peers\<close>: the target number of outbound connections less the current
  number, and 0 when that is negative.\<close>

definition num_needed_peers :: "int \<Rightarrow> int \<Rightarrow> int" where
  "num_needed_peers target_outbound_count outbound =
     (let diff = target_outbound_count - outbound in if diff \<ge> 0 then diff else 0)"

text \<open>\<^verbatim>\<open>random.randrange(n)\<close> returns a whole number from 0 to \<open>n - 1\<close>; the model draws it
  from the number the generator supplies.\<close>

definition randrange :: "nat \<Rightarrow> nat \<Rightarrow> nat" where
  "randrange n raw = raw mod n"

text \<open>\<^verbatim>\<open>_poisson_next_send\<close>, with the logarithm of the reals for \<^verbatim>\<open>math.log\<close>. Times are
  in microseconds here.\<close>

definition poisson_next_send :: "real \<Rightarrow> real \<Rightarrow> nat \<Rightarrow> real" where
  "poisson_next_send now avg_interval_seconds raw =
     now + (ln (real (randrange (2 ^ 48) raw) * - 0.0000000000000035527136788 + 1)
              * avg_interval_seconds * - 1000000.0 + 0.5)"

text \<open>Lines 184 to 191 of \<^verbatim>\<open>_connect_to_peers\<close>: whether this iteration is a feeler, and the
  next feeler time afterwards.\<close>

definition feeler_decision :: "int \<Rightarrow> int \<Rightarrow> real \<Rightarrow> real \<Rightarrow> nat \<Rightarrow> bool \<times> real" where
  "feeler_decision target_outbound_count outbound now next_feeler raw =
     (if num_needed_peers target_outbound_count outbound = 0
      then (if now * 1000 * 1000 > next_feeler
            then (True, poisson_next_send (now * 1000 * 1000) 240 raw)
            else (False, next_feeler))
      else (False, next_feeler))"

text \<open>In the specification's words: the number \<open>U\<close> whose logarithm schedules the next
  feeler.\<close>

definition feeler_uniform :: "nat \<Rightarrow> real" where
  "feeler_uniform raw = 1 - real (raw mod 2 ^ 48) * 0.0000000000000035527136788"

text \<open>What the loop reads of an \<^verbatim>\<open>ExtendedPeerInfo\<close> returned by the address manager.\<close>

record extended_peer_info =
  ext_peer_info :: peer_info
  last_try :: int

text \<open>Lines 198 to 202: the number of tries allowed, from the number of network groups
  among the outbound connections.\<close>

definition max_tries_for :: "nat \<Rightarrow> nat" where
  "max_tries_for n_groups = (if n_groups < 3 then 10 else if n_groups \<le> 5 then 25 else 50)"

text \<open>What stays fixed while the inner loop of lines 203 to 242 runs. \<^verbatim>\<open>PeerInfo.get_group\<close>
  is not part of the sources at hand and is a parameter.\<close>

record 'g select_setup =
  get_group :: "peer_info \<Rightarrow> 'g"
  is_feeler :: bool
  groups :: "'g list"
  connected :: "peer_info list"
  loop_now :: real
  max_tries :: nat

text \<open>What the environment answers during one try, indexed by the number of tries made
  before it: whether the object has been closed, the results of
  \<^verbatim>\<open>select_tried_collision()\<close> and \<^verbatim>\<open>select_peer(is_feeler)\<close>, the clock at line 235,
  the result of \<^verbatim>\<open>get_local_peerinfo()\<close>, and the clock at line 239, read once that call
  has returned.\<close>

record try_env =
  closed_now :: bool
  tried_collision :: "extended_peer_info option"
  selected_peer :: "bool \<Rightarrow> extended_peer_info option"
  try_clock :: real
  local_now :: "peer_info option"
  try_clock_after :: real

text \<open>The variables the inner loop changes.\<close>

record select_state =
  got_peer :: bool
  addr :: "peer_info option"
  empty_tables :: bool
  has_collision :: bool
  local_peerinfo :: "peer_info option"
  last_timestamp_local_info :: int

text \<open>The selections asked of the address manager, in order. The sleeps of the loop change
  nothing and are not recorded.\<close>

datatype select_call = SelectTriedCollision | SelectPeer bool

text \<open>Lines 224 to 242, for one candidate: the first two rejections clear \<^verbatim>\<open>addr\<close>, the
  last two leave the candidate in it.\<close>

definition consider_candidate ::
  "'g select_setup \<Rightarrow> try_env \<Rightarrow> nat \<Rightarrow> extended_peer_info \<Rightarrow> select_state \<Rightarrow> exn + select_state" where
  "consider_candidate cfg e tries info s =
     (let a = ext_peer_info info;
          s1 = s\<lparr>addr := Some a\<rparr>
      in if \<not> is_feeler cfg \<and> get_group cfg a \<in> set (groups cfg) then Inr (s1\<lparr>addr := None\<rparr>)
         else if a \<in> set (connected cfg) then Inr (s1\<lparr>addr := None\<rparr>)
         else if loop_now cfg - real_of_int (last_try info) < 3600 \<and> tries < 30 then Inr s1
         else
           (case (if try_clock e - real_of_int (last_timestamp_local_info s1) > 1800
                     \<or> local_peerinfo s1 = None
                  then (case uint64 (py_int (try_clock_after e)) of
                          Inl ex \<Rightarrow> Inl ex
                        | Inr t \<Rightarrow> Inr (s1\<lparr>local_peerinfo := local_now e,
                                            last_timestamp_local_info := t\<rparr>))
                  else Inr s1) of
              Inl ex \<Rightarrow> Inl ex
            | Inr s2 \<Rightarrow>
                if local_peerinfo s2 \<noteq> None \<and> Some a = local_peerinfo s2 then Inr s2
                else Inr (s2\<lparr>got_peer := True\<rparr>)))"

text \<open>The inner loop. An exception of \<^verbatim>\<open>uint64\<close> is not caught in \<^verbatim>\<open>_connect_to_peers\<close>
  and ends the run.\<close>

function select_loop ::
  "'g select_setup \<Rightarrow> (nat \<Rightarrow> try_env) \<Rightarrow> nat \<Rightarrow> select_state \<Rightarrow>
     select_call list \<times> (exn + select_state)" where
  "select_loop cfg env tries s =
     (if got_peer s \<or> closed_now (env tries) then ([], Inr s)
      else if tries + 1 > max_tries cfg then ([], Inr (s\<lparr>addr := None, empty_tables := True\<rparr>))
      else
        (case tried_collision (env tries) of
           Some info \<Rightarrow>
             (case consider_candidate cfg (env tries) (tries + 1) info (s\<lparr>has_collision := True\<rparr>) of
                Inl ex \<Rightarrow> ([SelectTriedCollision], Inl ex)
              | Inr s1 \<Rightarrow>
                  (case select_loop cfg env (tries + 1) s1 of
                     (calls, r) \<Rightarrow> (SelectTriedCollision # calls, r)))
         | None \<Rightarrow>
             (case selected_peer (env tries) (is_feeler cfg) of
                None \<Rightarrow>
                  ([SelectTriedCollision, SelectPeer (is_feeler cfg)],
                   Inr (if \<not> is_feeler cfg then s\<lparr>empty_tables := True\<rparr> else s))
              | Some info \<Rightarrow>
                  (case consider_candidate cfg (env tries) (tries + 1) info s of
                     Inl ex \<Rightarrow> ([SelectTriedCollision, SelectPeer (is_feeler cfg)], Inl ex)
                   | Inr s1 \<Rightarrow>
                       (case select_loop cfg env (tries + 1) s1 of
                          (calls, r) \<Rightarrow>
                            (SelectTriedCollision # SelectPeer (is_feeler cfg) # calls, r))))))"
  by pat_completeness auto
termination
  by (relation "measure (\<lambda>(cfg, env, tries, s). max_tries cfg + 1 - tries)") auto

declare select_loop.simps [simp del]

text \<open>In the specification's words: the candidate of a try is the collision candidate when
  one is due, and the result of \<^verbatim>\<open>select_peer\<close> otherwise.\<close>

definition candidate :: "'g select_setup \<Rightarrow> try_env \<Rightarrow> extended_peer_info option" where
  "candidate cfg e =
     (case tried_collision e of Some info \<Rightarrow> Some info | None \<Rightarrow> selected_peer e (is_feeler cfg))"

text \<open>In the specification's words: the four reasons to reject a candidate, given the number
  of tries made so far and the local endpoint.\<close>

definition rejected ::
  "'g select_setup \<Rightarrow> nat \<Rightarrow> extended_peer_info \<Rightarrow> peer_info option \<Rightarrow> bool" where
  "rejected cfg tries info local_endpoint \<longleftrightarrow>
     (\<not> is_feeler cfg \<and> get_group cfg (ext_peer_info info) \<in> set (groups cfg))
     \<or> ext_peer_info info \<in> set (connected cfg)
     \<or> (loop_now cfg - real_of_int (last_try info) < 3600 \<and> tries < 30)
     \<or> local_endpoint = Some (ext_peer_info info)"

text \<open>The number of candidate selections among the calls of a run.\<close>

definition selections :: "select_call list \<Rightarrow> nat" where
  "selections calls = length (filter (\<lambda>c. c = SelectTriedCollision) calls)"

text \<open>
  Lines 244 to 256, after the inner loop: whether a connection is initiated, and if so to
  which address and with which \<^verbatim>\<open>disconnect_after_handshake\<close>. The address dialled is
  whatever the loop left in \<^verbatim>\<open>addr\<close>. \<^verbatim>\<open>_num_needed_peers()\<close> is read at lines 245 and
  249 with no suspension between.
\<close>

definition dial ::
  "'g select_setup \<Rightarrow> int \<Rightarrow> int \<Rightarrow> select_state \<Rightarrow> select_state \<times> (peer_info \<times> bool) option" where
  "dial cfg target_outbound_count outbound s =
     (let needed = num_needed_peers target_outbound_count outbound;
          disconnect_after_handshake = (if needed = 0 then True else is_feeler cfg);
          s1 = (if needed = 0 then s\<lparr>empty_tables := False\<rparr> else s);
          initiate_connection = (needed > 0 \<or> has_collision s \<or> is_feeler cfg)
      in (s1, case addr s of
                None \<Rightarrow> None
              | Some a \<Rightarrow> if initiate_connection then Some (a, disconnect_after_handshake)
                          else None))"

text \<open>In the specification's words: the local endpoint a candidate is compared with, which
  is asked for again when the last answer is older than half an hour or missing.\<close>

definition local_endpoint :: "try_env \<Rightarrow> select_state \<Rightarrow> peer_info option" where
  "local_endpoint e s =
     (if try_clock e - real_of_int (last_timestamp_local_info s) > 1800 \<or> local_peerinfo s = None
      then local_now e else local_peerinfo s)"

section \<open>The store and the life cycle\<close>

text \<open>Modelled from the spec: \<^verbatim>\<open>AddressManagerStore\<close> (\<^verbatim>\<open>src/server/address_manager_store.py\<close>)
  is not part of the sources at hand. The specification describes a store that is empty or
  holds the most recent snapshot of the address manager: \<^verbatim>\<open>serialize\<close> writes a snapshot of
  the manager, loading returns the most recent one. The address manager itself is kept
  abstract, as a value of a type \<open>'am\<close>.\<close>

definition store_is_empty :: "'am option \<Rightarrow> bool" where
  "store_is_empty db \<longleftrightarrow> db = None"

definition store_deserialize :: "'am option \<Rightarrow> exn + 'am" where
  "store_deserialize db = (case db of None \<Rightarrow> Inl (Raised ''empty store'') | Some snapshot \<Rightarrow> Inr snapshot)"

definition store_clear :: "'am option \<Rightarrow> 'am option" where
  "store_clear db = None"

definition store_serialize :: "'am \<Rightarrow> 'am option \<Rightarrow> 'am option" where
  "store_serialize manager db = Some manager"

text \<open>The part of a \<^verbatim>\<open>FullNodeDiscovery\<close> object that its life cycle touches: the flag
  \<^verbatim>\<open>is_closed\<close>, the address manager, the content of the store behind the database
  connection, whether that connection is open, and the tasks cancelled so far.\<close>

record 'am discovery =
  is_closed :: bool
  address_manager :: 'am
  address_manager_store :: "'am option"
  connection_open :: bool
  cancelled :: "string list"

text \<open>\<^verbatim>\<open>initialize_address_manager\<close>, from a fresh manager (what \<^verbatim>\<open>AddressManager()\<close> would
  build) and the content of the database.\<close>

definition initialize_address_manager :: "'am \<Rightarrow> 'am option \<Rightarrow> exn + 'am discovery" where
  "initialize_address_manager fresh db =
     (if \<not> store_is_empty db
      then (case store_deserialize db of
              Inl e \<Rightarrow> Inl e
            | Inr manager \<Rightarrow>
                Inr \<lparr>is_closed = False, address_manager = manager, address_manager_store = db,
                     connection_open = True, cancelled = []\<rparr>)
      else Inr \<lparr>is_closed = False, address_manager = fresh,
                address_manager_store = store_clear db,
                connection_open = True, cancelled = []\<rparr>)"

text \<open>\<^verbatim>\<open>_close_common\<close>: the flag, the three cancellations and the closing of the
  connection.\<close>

definition close_common :: "'am discovery \<Rightarrow> 'am discovery" where
  "close_common st =
     st\<lparr>is_closed := True,
        cancelled := cancelled st @ [''connect_peers_task'', ''process_messages_task'', ''serialize_task''],
        connection_open := False\<rparr>"

text \<open>\<^verbatim>\<open>FullNodePeers.close\<close>: \<^verbatim>\<open>_close_common\<close>, then the cancellation of the two tasks of
  the relay.\<close>

definition close :: "'am discovery \<Rightarrow> 'am discovery" where
  "close st =
     (close_common st)\<lparr>cancelled := cancelled (close_common st)
                                      @ [''self_advertise_task'', ''address_relay_task'']\<rparr>"

text \<open>\<^verbatim>\<open>WalletPeers.ensure_is_closed\<close>: \<^verbatim>\<open>_close_common\<close> unless the object is closed
  already.\<close>

definition ensure_is_closed :: "'am discovery \<Rightarrow> 'am discovery" where
  "ensure_is_closed st = (if is_closed st then st else close_common st)"

text \<open>\<^verbatim>\<open>random.randint(a, b)\<close> returns a whole number from \<open>a\<close> to \<open>b\<close>, both included; the
  model draws it from the number the generator supplies.\<close>

definition randint :: "int \<Rightarrow> int \<Rightarrow> nat \<Rightarrow> int" where
  "randint a b raw = a + int raw mod (b - a + 1)"

text \<open>What the environment supplies for one turn of \<^verbatim>\<open>_periodically_serialize\<close>: the number
  drawn, and the exception \<^verbatim>\<open>serialize\<close> raises, if any.\<close>

record serialize_round =
  draw :: nat
  write_fails :: "exn option"

text \<open>\<^verbatim>\<open>_periodically_serialize\<close>: the state afterwards, the intervals slept in seconds, and
  the exception that left the loop, if any. The loop has no \<^verbatim>\<open>try\<close>: an exception of
  \<^verbatim>\<open>serialize\<close> ends it. A failed write leaves the earlier snapshot in place.\<close>

fun periodically_serialize ::
  "'am discovery \<Rightarrow> serialize_round list \<Rightarrow> 'am discovery \<times> int list \<times> exn option" where
  "periodically_serialize st [] = (st, [], None)"
| "periodically_serialize st (r # rounds) =
     (if is_closed st then (st, [], None)
      else
        (let serialize_interval = randint (15 * 60) (30 * 60) (draw r)
         in case write_fails r of
              Some e \<Rightarrow> (st, [serialize_interval], Some e)
            | None \<Rightarrow>
                (case periodically_serialize
                        (st\<lparr>address_manager_store :=
                              store_serialize (address_manager st) (address_manager_store st)\<rparr>)
                        rounds of
                   (st1, sleeps, escaped) \<Rightarrow> (st1, serialize_interval # sleeps, escaped))))"

section \<open>Properties of the ingest\<close>

lemma py_int_five_days_ago:
  assumes "432000 \<le> now" and "now < 2 ^ 64"
  shows "uint64 (py_int (now - 5 * 24 * 60 * 60)) = Inr (py_int (now - 432000))"
proof -
  have nonneg: "0 \<le> now - 432000" using assms(1) by simp
  have "\<lfloor>now - 432000\<rfloor> \<le> \<lfloor>now\<rfloor>" by (rule floor_mono) simp
  moreover have "\<lfloor>now\<rfloor> < 2 ^ 64" using assms(2) by (simp add: floor_less_iff)
  ultimately have "\<lfloor>now - 432000\<rfloor> < 2 ^ 64" by linarith
  moreover have "0 \<le> \<lfloor>now - 432000\<rfloor>" using nonneg by simp
  ultimately show ?thesis using nonneg by (simp add: uint64_def py_int_def)
qed

lemma adjust_timestamp_full_node:
  assumes "432000 \<le> now" and "now < 2 ^ 64"
  shows "adjust_timestamp now True peer = Inr (sanitized now peer)"
  using py_int_five_days_ago [OF assms]
  by (simp add: adjust_timestamp_def sanitized_def)

lemma adjust_timestamp_other_source:
  assumes "432000 \<le> now" and "now < 2 ^ 64"
  shows "adjust_timestamp now False peer = Inr (zeroed peer)"
  using py_int_five_days_ago [OF assms]
  by (simp add: adjust_timestamp_def zeroed_def uint64_def)

lemma adjust_peers_full_node:
  assumes "432000 \<le> now" and "now < 2 ^ 64"
  shows "adjust_peers now True peers = Inr (map (sanitized now) peers)"
  by (induction peers) (simp_all add: adjust_timestamp_full_node [OF assms])

lemma adjust_peers_other_source:
  assumes "432000 \<le> now" and "now < 2 ^ 64"
  shows "adjust_peers now False peers = Inr (map zeroed peers)"
  by (induction peers) (simp_all add: adjust_timestamp_other_source [OF assms])

text \<open>
  Claim C4, as the code has it. A peer list received from a full node is handed to
  \<^verbatim>\<open>add_to_new_table\<close> with every timestamp below \<open>10^8\<close> or above \<open>now + 600\<close> replaced
  by \<open>now - 5 days\<close> (truncated to whole seconds) and every timestamp inside
  \<open>[10^8, now + 600]\<close> kept: \<open>10^8\<close> itself is valid, \<open>now + 600\<close> is valid, \<open>now + 601\<close>
  is not. The clock is assumed to be later than five days after the epoch, so that the
  replacement is a 64-bit unsigned number.
\<close>

theorem ingest_full_node_timestamps:
  assumes "432000 \<le> now" and "now < 2 ^ 64"
  shows "respond_peers_common now peers src True =
     Inr (AddToNewTable
            (map (\<lambda>p. if 100000000 \<le> timestamp p \<and> real_of_int (timestamp p) \<le> now + 600
                       then p else p\<lparr>timestamp := py_int (now - 432000)\<rparr>) peers)
            src 7200)"
proof -
  have "sanitized now =
      (\<lambda>p. if 100000000 \<le> timestamp p \<and> real_of_int (timestamp p) \<le> now + 600
            then p else p\<lparr>timestamp := py_int (now - 432000)\<rparr>)"
    by (rule ext) (simp add: sanitized_def not_less not_le)
  then show ?thesis
    by (simp add: respond_peers_common_def adjust_peers_full_node [OF assms])
qed

theorem ingest_full_node_timestamps_witness:
  "(432000::real) \<le> 1600000000 \<and> (1600000000::real) < 2 ^ 64 \<and>
   respond_peers_common 1600000000
     [\<lparr>host = ''10.0.0.1'', port = 8444, timestamp = 100000000\<rparr>,
      \<lparr>host = ''10.0.0.2'', port = 8444, timestamp = 1600000600\<rparr>,
      \<lparr>host = ''10.0.0.3'', port = 8444, timestamp = 1600000601\<rparr>,
      \<lparr>host = ''10.0.0.4'', port = 8444, timestamp = 99999999\<rparr>]
     (Some \<lparr>host = ''10.1.0.9'', port = 8444\<rparr>) True =
   Inr (AddToNewTable
     [\<lparr>host = ''10.0.0.1'', port = 8444, timestamp = 100000000\<rparr>,
      \<lparr>host = ''10.0.0.2'', port = 8444, timestamp = 1600000600\<rparr>,
      \<lparr>host = ''10.0.0.3'', port = 8444, timestamp = 1599568000\<rparr>,
      \<lparr>host = ''10.0.0.4'', port = 8444, timestamp = 1599568000\<rparr>]
     (Some \<lparr>host = ''10.1.0.9'', port = 8444\<rparr>) 7200)"
  using ingest_full_node_timestamps [of 1600000000
     "[\<lparr>host = ''10.0.0.1'', port = 8444, timestamp = 100000000\<rparr>,
       \<lparr>host = ''10.0.0.2'', port = 8444, timestamp = 1600000600\<rparr>,
       \<lparr>host = ''10.0.0.3'', port = 8444, timestamp = 1600000601\<rparr>,
       \<lparr>host = ''10.0.0.4'', port = 8444, timestamp = 99999999\<rparr>]"
     "Some \<lparr>host = ''10.1.0.9'', port = 8444\<rparr>"]
  by (simp add: py_int_def)

text \<open>
  Claim C4 as the specification words it fails twice. At 1600000000 seconds a full node's
  peer stamped exactly \<open>10^8\<close> is kept as it is, not sanitized; and a peer stamped 5 that
  comes from a wallet is stored with timestamp 0, not with \<open>now - 5 days\<close>.
\<close>

theorem ingest_boundary_counterexample:
  "respond_peers_common 1600000000
     [\<lparr>host = ''10.0.0.1'', port = 8444, timestamp = 100000000\<rparr>]
     (Some \<lparr>host = ''10.1.0.9'', port = 8444\<rparr>) True =
   Inr (AddToNewTable [\<lparr>host = ''10.0.0.1'', port = 8444, timestamp = 100000000\<rparr>]
     (Some \<lparr>host = ''10.1.0.9'', port = 8444\<rparr>) 7200)
   \<and> py_int (1600000000 - 432000) = 1599568000
   \<and> respond_peers_common 1600000000
     [\<lparr>host = ''10.0.0.1'', port = 8444, timestamp = 5\<rparr>]
     (Some \<lparr>host = ''10.1.0.9'', port = 8444\<rparr>) False =
   Inr (AddToNewTable [\<lparr>host = ''10.0.0.1'', port = 8444, timestamp = 0\<rparr>] None 0)"
  by (simp add: respond_peers_common_def adjust_timestamp_def uint64_def py_int_def)

text \<open>
  Claim C9. A peer list that does not come from a full node (a wallet source) is handed to
  \<^verbatim>\<open>add_to_new_table\<close> with every timestamp replaced by 0, whatever was supplied, with
  source \<^verbatim>\<open>None\<close> and penalty 0.
\<close>

theorem ingest_wallet_source_zeroes:
  assumes "432000 \<le> now" and "now < 2 ^ 64"
  shows "respond_peers_common now peers src False =
     Inr (AddToNewTable (map (\<lambda>p. p\<lparr>timestamp := 0\<rparr>) peers) None 0)"
proof -
  have "zeroed = (\<lambda>p. p\<lparr>timestamp := 0\<rparr>)"
    by (rule ext) (simp add: zeroed_def)
  then show ?thesis
    by (simp add: respond_peers_common_def adjust_peers_other_source [OF assms])
qed

theorem ingest_wallet_source_zeroes_witness:
  "(432000::real) \<le> 1600000000 \<and> (1600000000::real) < 2 ^ 64 \<and>
   respond_peers_common 1600000000
     [\<lparr>host = ''10.0.0.1'', port = 8444, timestamp = 1599999000\<rparr>,
      \<lparr>host = ''10.0.0.2'', port = 8444, timestamp = 7\<rparr>]
     (Some \<lparr>host = ''10.1.0.9'', port = 8444\<rparr>) False =
   Inr (AddToNewTable
     [\<lparr>host = ''10.0.0.1'', port = 8444, timestamp = 0\<rparr>,
      \<lparr>host = ''10.0.0.2'', port = 8444, timestamp = 0\<rparr>] None 0)"
  using ingest_wallet_source_zeroes [of 1600000000
     "[\<lparr>host = ''10.0.0.1'', port = 8444, timestamp = 1599999000\<rparr>,
       \<lparr>host = ''10.0.0.2'', port = 8444, timestamp = 7\<rparr>]"
     "Some \<lparr>host = ''10.1.0.9'', port = 8444\<rparr>"]
  by simp

section \<open>Properties of the message inbox\<close>

lemma update_connects_Cons:
  "update_connects (e # es) = update_connects [e] @ update_connects es"
  by (simp add: update_connects_def)

lemma process_messages_Cons:
  "process_messages st (item # items) =
     (fst (process_messages (fst (process_message_body item st)) items),
      \<lparr>entry_at = clock item, entry_message = message item,
        entry_calls = fst (snd (process_message_body item st)),
        entry_logged = snd (snd (process_message_body item st))\<rparr>
      # snd (process_messages (fst (process_message_body item st)) items))"
  by (simp split: prod.splits)

lemma body_update_first:
  assumes "connection_time_pretest st (host peer) = None" "port peer \<noteq> 0"
    "subject item = Some peer" "message item = ''update_connection_time''"
  shows "process_message_body item st =
     (st\<lparr>connection_time_pretest := (connection_time_pretest st)(host peer \<mapsto> clock item)\<rparr>, [], None)"
  using assms by (simp add: process_message_body_def)

lemma body_update_later:
  assumes "connection_time_pretest st (host peer) = Some r" "port peer \<noteq> 0"
    "subject item = Some peer" "message item = ''update_connection_time''"
  shows "process_message_body item st =
     (if clock item - r > 60
      then (case raises item (Connect peer) of
              None \<Rightarrow>
                (st\<lparr>connection_time_pretest :=
                      (connection_time_pretest st)(host peer \<mapsto> clock_after item)\<rparr>,
                 [Connect peer], None)
            | Some e \<Rightarrow> (st, [Connect peer], Some e))
      else (st, [], None))"
  using assms by (simp add: process_message_body_def map_upd_triv split: option.splits)

lemma body_other_pretest:
  assumes "\<not> (\<exists>h. updates_host h item)"
  shows "connection_time_pretest (fst (process_message_body item st)) = connection_time_pretest st"
  using assms
  by (auto simp: process_message_body_def updates_host_def Let_def
           split: option.splits prod.splits sum.splits)

lemma body_other_connects:
  assumes "\<not> (\<exists>h. updates_host h item)"
  shows "update_connects [\<lparr>entry_at = clock item, entry_message = message item,
        entry_calls = fst (snd (process_message_body item st)),
        entry_logged = snd (snd (process_message_body item st))\<rparr>] = []"
  using assms
  by (auto simp: process_message_body_def updates_host_def update_connects_def Let_def
           split: option.splits prod.splits sum.splits)

lemma update_connects_single:
  "update_connects [\<lparr>entry_at = t, entry_message = ''update_connection_time'',
        entry_calls = [Connect p], entry_logged = l\<rparr>] = [(t, p, l = None)]"
  "update_connects [\<lparr>entry_at = t, entry_message = m,
        entry_calls = [], entry_logged = l\<rparr>] = []"
  by (simp_all add: update_connects_def)

lemma connects_spaced_aux:
  assumes "\<forall>item\<in>set items. clock item \<le> clock_after item"
  shows "(\<forall>r t p b. connection_time_pretest st (host p) = Some r
            \<longrightarrow> (t, p, b) \<in> set (update_connects (snd (process_messages st items)))
            \<longrightarrow> t - r > 60)
       \<and> sorted_wrt (\<lambda>a b. host (fst (snd a)) = host (fst (snd b)) \<and> snd (snd a)
                           \<longrightarrow> fst b - fst a > 60)
            (update_connects (snd (process_messages st items)))"
  using assms
proof (induction items arbitrary: st)
  case Nil
  show ?case by (simp add: update_connects_def)
next
  case (Cons item items)
  let ?st1 = "fst (process_message_body item st)"
  let ?rest = "update_connects (snd (process_messages ?st1 items))"
  let ?P = "\<lambda>a b. host (fst (snd a)) = host (fst (snd b)) \<and> snd (snd a)
              \<longrightarrow> fst b - fst a > (60::real)"
  have ordered: "\<forall>item\<in>set items. clock item \<le> clock_after item"
    using Cons.prems by simp
  have here: "clock item \<le> clock_after item" using Cons.prems by simp
  note IH = Cons.IH [OF ordered, of ?st1]
  have IH1: "\<And>r t p b. connection_time_pretest ?st1 (host p) = Some r
              \<Longrightarrow> (t, p, b) \<in> set ?rest \<Longrightarrow> t - r > 60"
    using IH by blast
  have IH2: "sorted_wrt ?P ?rest" using IH by blast
  have split_log: "update_connects (snd (process_messages st (item # items))) =
      update_connects [\<lparr>entry_at = clock item, entry_message = message item,
        entry_calls = fst (snd (process_message_body item st)),
        entry_logged = snd (snd (process_message_body item st))\<rparr>] @ ?rest"
    by (subst process_messages_Cons, simp, subst update_connects_Cons, simp)
  show ?case
  proof (cases "\<exists>h. updates_host h item")
    case False
    have "update_connects (snd (process_messages st (item # items))) = ?rest"
      using split_log body_other_connects [OF False, of st] by simp
    moreover have "connection_time_pretest ?st1 = connection_time_pretest st"
      by (rule body_other_pretest [OF False])
    ultimately show ?thesis using IH1 IH2 by simp
  next
    case True
    then obtain peer where peer: "subject item = Some peer" "port peer \<noteq> 0"
        "message item = ''update_connection_time''"
      by (auto simp: updates_host_def split: option.splits)
    show ?thesis
    proof (cases "connection_time_pretest st (host peer)")
      case None
      note b = body_update_first [OF None peer(2) peer(1) peer(3)]
      have log: "update_connects (snd (process_messages st (item # items))) = ?rest"
        using split_log by (simp add: b update_connects_single)
      have pre: "connection_time_pretest ?st1 =
          (connection_time_pretest st)(host peer \<mapsto> clock item)"
        by (simp add: b)
      have "t - r > 60"
        if "connection_time_pretest st (host p) = Some r" "(t, p, c) \<in> set ?rest"
        for r t p c
      proof -
        have "host p \<noteq> host peer" using that(1) None by auto
        then have "connection_time_pretest ?st1 (host p) = Some r"
          using that(1) by (simp add: pre)
        then show ?thesis using IH1 that(2) by blast
      qed
      then show ?thesis using IH2 by (simp only: log) blast
    next
      case (Some r0)
      note b = body_update_later [OF Some peer(2) peer(1) peer(3)]
      show ?thesis
      proof (cases "clock item - r0 > 60")
        case False
        have log: "update_connects (snd (process_messages st (item # items))) = ?rest"
          using split_log False by (simp add: b update_connects_single)
        have "?st1 = st" using False by (simp add: b)
        then show ?thesis using IH1 IH2 by (simp only: log) auto
      next
        case due: True
        show ?thesis
        proof (cases "raises item (Connect peer)")
          case (Some e)
          have log: "update_connects (snd (process_messages st (item # items))) =
              (clock item, peer, False) # ?rest"
            using split_log due peer(3) Some by (simp add: b update_connects_single)
          have same: "?st1 = st" using due Some by (simp add: b)
          have part1: "t - r > 60"
            if "connection_time_pretest st (host p) = Some r"
              "(t, p, c) \<in> set ((clock item, peer, False) # ?rest)"
            for r t p c
          proof (cases "(t, p, c) = (clock item, peer, False)")
            case True
            then show ?thesis using that(1) \<open>connection_time_pretest st (host peer) = Some r0\<close> due
              by simp
          next
            case False
            then have "(t, p, c) \<in> set ?rest" using that(2) by auto
            then show ?thesis using IH1 that(1) same by auto
          qed
          have part2: "sorted_wrt ?P ((clock item, peer, False) # ?rest)"
            using IH2 by simp
          show ?thesis using part1 part2 by (simp only: log) blast
        next
          case None
          have log: "update_connects (snd (process_messages st (item # items))) =
              (clock item, peer, True) # ?rest"
            using split_log due peer(3) None by (simp add: b update_connects_single)
          have pre: "connection_time_pretest ?st1 =
              (connection_time_pretest st)(host peer \<mapsto> clock_after item)"
            using due None by (simp add: b)
          have later: "t - clock_after item > 60"
            if "(t, p, c) \<in> set ?rest" "host p = host peer" for t p c
          proof -
            have "connection_time_pretest ?st1 (host p) = Some (clock_after item)"
              using that(2) by (simp add: pre)
            then show ?thesis using IH1 that(1) by blast
          qed
          have part1: "t - r > 60"
            if "connection_time_pretest st (host p) = Some r"
              "(t, p, c) \<in> set ((clock item, peer, True) # ?rest)"
            for r t p c
          proof (cases "(t, p, c) = (clock item, peer, True)")
            case True
            then show ?thesis using that(1) \<open>connection_time_pretest st (host peer) = Some r0\<close> due
              by simp
          next
            case False
            then have mem: "(t, p, c) \<in> set ?rest" using that(2) by auto
            show ?thesis
            proof (cases "host p = host peer")
              case True
              then have "r = r0"
                using that(1) \<open>connection_time_pretest st (host peer) = Some r0\<close> by simp
              then show ?thesis using later [OF mem True] due here by simp
            next
              case False
              then have "connection_time_pretest ?st1 (host p) = Some r"
                using that(1) by (simp add: pre)
              then show ?thesis using IH1 mem by blast
            qed
          qed
          have "fst y - clock item > 60"
            if "y \<in> set ?rest" "host peer = host (fst (snd y))" for y
          proof -
            obtain t p c where y: "y = (t, p, c)" by (cases y)
            have "t - clock_after item > 60" using later [of t p c] that y by simp
            then show ?thesis using here y by simp
          qed
          then have part2: "sorted_wrt ?P ((clock item, peer, True) # ?rest)"
            using IH2 by auto
          show ?thesis using part1 part2 by (simp only: log) blast
        qed
      qed
    qed
  qed
qed

lemma body_pretest_None:
  "connection_time_pretest (fst (process_message_body item st)) h = None
     \<longleftrightarrow> connection_time_pretest st h = None \<and> \<not> updates_host h item"
  by (auto simp: process_message_body_def updates_host_def Let_def
           split: option.splits prod.splits sum.splits if_splits)

lemma pretest_None_iff:
  "connection_time_pretest (fst (process_messages st items)) h = None
     \<longleftrightarrow> connection_time_pretest st h = None \<and> (\<forall>item\<in>set items. \<not> updates_host h item)"
proof (induction items arbitrary: st)
  case Nil
  show ?case by simp
next
  case (Cons item items)
  show ?case
    by (subst process_messages_Cons) (auto simp: Cons.IH body_pretest_None)
qed


text \<open>
  Claim C10, as the code has it. The loop starts with an empty \<^verbatim>\<open>connection_time_pretest\<close>.
  After any items, an \<^verbatim>\<open>update_connection_time\<close> item for a host that no earlier such item
  named makes no call on the address manager and only records the clock. For a host named
  before, \<^verbatim>\<open>connect\<close> is called exactly when the clock is more than 60 seconds past the
  recorded time; when the call returns, the recorded time becomes the clock read after
  the call; when the call raises, the recorded time stays. With a clock that does not go
  back while \<^verbatim>\<open>connect\<close> is awaited, a \<^verbatim>\<open>connect\<close> call for a host comes more than 60
  seconds after every earlier such call for that host that returned.
\<close>

theorem update_connection_time_rate_limit:
  assumes run: "process_messages \<lparr>connection_time_pretest = Map.empty, relay_queue = q\<rparr> items
                  = (st, entries)"
    and item: "subject item = Some peer" "port peer \<noteq> 0"
      "message item = ''update_connection_time''"
  shows "((\<forall>earlier\<in>set items. \<not> updates_host (host peer) earlier) \<longrightarrow>
            process_message_body item st =
              (st\<lparr>connection_time_pretest :=
                    (connection_time_pretest st)(host peer \<mapsto> clock item)\<rparr>, [], None))
       \<and> ((\<exists>earlier\<in>set items. updates_host (host peer) earlier) \<longrightarrow>
            (\<exists>recorded. connection_time_pretest st (host peer) = Some recorded \<and>
               process_message_body item st =
                 (if clock item - recorded > 60
                  then (case raises item (Connect peer) of
                          None \<Rightarrow>
                            (st\<lparr>connection_time_pretest :=
                                  (connection_time_pretest st)(host peer \<mapsto> clock_after item)\<rparr>,
                             [Connect peer], None)
                        | Some e \<Rightarrow> (st, [Connect peer], Some e))
                  else (st, [], None))))
       \<and> ((\<forall>earlier\<in>set items. clock earlier \<le> clock_after earlier) \<longrightarrow>
            (\<forall>i j. i < j \<and> j < length (update_connects entries)
                 \<and> host (fst (snd (update_connects entries ! i)))
                     = host (fst (snd (update_connects entries ! j)))
                 \<and> snd (snd (update_connects entries ! i))
              \<longrightarrow> fst (update_connects entries ! j) - fst (update_connects entries ! i) > 60))"
proof (intro conjI impI)
  have st: "st = fst (process_messages \<lparr>connection_time_pretest = Map.empty, relay_queue = q\<rparr> items)"
    by (simp add: run)
  have known: "connection_time_pretest st (host peer) = None
      \<longleftrightarrow> (\<forall>earlier\<in>set items. \<not> updates_host (host peer) earlier)"
    by (simp add: st pretest_None_iff)
  {
    assume "\<forall>earlier\<in>set items. \<not> updates_host (host peer) earlier"
    then have "connection_time_pretest st (host peer) = None" using known by simp
    then show "process_message_body item st =
        (st\<lparr>connection_time_pretest :=
              (connection_time_pretest st)(host peer \<mapsto> clock item)\<rparr>, [], None)"
      by (rule body_update_first [OF _ item(2) item(1) item(3)])
  }
  {
    assume "\<exists>earlier\<in>set items. updates_host (host peer) earlier"
    then obtain recorded where r: "connection_time_pretest st (host peer) = Some recorded"
      using known by auto
    show "\<exists>recorded. connection_time_pretest st (host peer) = Some recorded \<and>
               process_message_body item st =
                 (if clock item - recorded > 60
                  then (case raises item (Connect peer) of
                          None \<Rightarrow>
                            (st\<lparr>connection_time_pretest :=
                                  (connection_time_pretest st)(host peer \<mapsto> clock_after item)\<rparr>,
                             [Connect peer], None)
                        | Some e \<Rightarrow> (st, [Connect peer], Some e))
                  else (st, [], None))"
      using r body_update_later [OF r item(2) item(1) item(3)] by blast
  }
  {
    assume ordered: "\<forall>earlier\<in>set items. clock earlier \<le> clock_after earlier"
    have "entries = snd (process_messages \<lparr>connection_time_pretest = Map.empty, relay_queue = q\<rparr> items)"
      by (simp add: run)
    then have "sorted_wrt (\<lambda>a b. host (fst (snd a)) = host (fst (snd b)) \<and> snd (snd a)
                           \<longrightarrow> fst b - fst a > 60)
        (update_connects entries)"
      using connects_spaced_aux [OF ordered] by blast
    then show "\<forall>i j. i < j \<and> j < length (update_connects entries)
                 \<and> host (fst (snd (update_connects entries ! i)))
                     = host (fst (snd (update_connects entries ! j)))
                 \<and> snd (snd (update_connects entries ! i))
              \<longrightarrow> fst (update_connects entries ! j) - fst (update_connects entries ! i) > 60"
      by (simp add: sorted_wrt_iff_nth_less)
  }
qed

theorem update_connection_time_rate_limit_witness:
  "list_all (\<lambda>item. clock item \<le> clock_after item)
         [\<lparr>raises = (\<lambda>_. None), clock = 0, clock_after = 0,
            message = ''update_connection_time'', subject = Some \<lparr>host = ''10.0.0.1'', port = 8444\<rparr>\<rparr>,
          \<lparr>raises = (\<lambda>_. Some (Raised ''locked'')), clock = 100, clock_after = 101,
            message = ''update_connection_time'', subject = Some \<lparr>host = ''10.0.0.1'', port = 8444\<rparr>\<rparr>,
          \<lparr>raises = (\<lambda>_. None), clock = 110, clock_after = 111,
            message = ''update_connection_time'', subject = Some \<lparr>host = ''10.0.0.1'', port = 8444\<rparr>\<rparr>,
          \<lparr>raises = (\<lambda>_. None), clock = 150, clock_after = 151,
            message = ''update_connection_time'', subject = Some \<lparr>host = ''10.0.0.1'', port = 8444\<rparr>\<rparr>,
          \<lparr>raises = (\<lambda>_. None), clock = 180, clock_after = 181,
            message = ''update_connection_time'', subject = Some \<lparr>host = ''10.0.0.1'', port = 8444\<rparr>\<rparr>]
   \<and> update_connects (snd (process_messages
         \<lparr>connection_time_pretest = Map.empty, relay_queue = None\<rparr>
         [\<lparr>raises = (\<lambda>_. None), clock = 0, clock_after = 0,
            message = ''update_connection_time'', subject = Some \<lparr>host = ''10.0.0.1'', port = 8444\<rparr>\<rparr>,
          \<lparr>raises = (\<lambda>_. Some (Raised ''locked'')), clock = 100, clock_after = 101,
            message = ''update_connection_time'', subject = Some \<lparr>host = ''10.0.0.1'', port = 8444\<rparr>\<rparr>,
          \<lparr>raises = (\<lambda>_. None), clock = 110, clock_after = 111,
            message = ''update_connection_time'', subject = Some \<lparr>host = ''10.0.0.1'', port = 8444\<rparr>\<rparr>,
          \<lparr>raises = (\<lambda>_. None), clock = 150, clock_after = 151,
            message = ''update_connection_time'', subject = Some \<lparr>host = ''10.0.0.1'', port = 8444\<rparr>\<rparr>,
          \<lparr>raises = (\<lambda>_. None), clock = 180, clock_after = 181,
            message = ''update_connection_time'', subject = Some \<lparr>host = ''10.0.0.1'', port = 8444\<rparr>\<rparr>]))
       = [(100, \<lparr>host = ''10.0.0.1'', port = 8444\<rparr>, False), (110, \<lparr>host = ''10.0.0.1'', port = 8444\<rparr>, True), (180, \<lparr>host = ''10.0.0.1'', port = 8444\<rparr>, True)]
   \<and> process_message_body
         \<lparr>raises = (\<lambda>_. None), clock = 200, clock_after = 201,
            message = ''update_connection_time'', subject = Some \<lparr>host = ''10.0.0.1'', port = 8444\<rparr>\<rparr>
         (fst (process_messages
         \<lparr>connection_time_pretest = Map.empty, relay_queue = None\<rparr>
         [\<lparr>raises = (\<lambda>_. None), clock = 0, clock_after = 0,
            message = ''update_connection_time'', subject = Some \<lparr>host = ''10.0.0.1'', port = 8444\<rparr>\<rparr>,
          \<lparr>raises = (\<lambda>_. Some (Raised ''locked'')), clock = 100, clock_after = 101,
            message = ''update_connection_time'', subject = Some \<lparr>host = ''10.0.0.1'', port = 8444\<rparr>\<rparr>,
          \<lparr>raises = (\<lambda>_. None), clock = 110, clock_after = 111,
            message = ''update_connection_time'', subject = Some \<lparr>host = ''10.0.0.1'', port = 8444\<rparr>\<rparr>,
          \<lparr>raises = (\<lambda>_. None), clock = 150, clock_after = 151,
            message = ''update_connection_time'', subject = Some \<lparr>host = ''10.0.0.1'', port = 8444\<rparr>\<rparr>,
          \<lparr>raises = (\<lambda>_. None), clock = 180, clock_after = 181,
            message = ''update_connection_time'', subject = Some \<lparr>host = ''10.0.0.1'', port = 8444\<rparr>\<rparr>]))
       = (fst (process_messages
         \<lparr>connection_time_pretest = Map.empty, relay_queue = None\<rparr>
         [\<lparr>raises = (\<lambda>_. None), clock = 0, clock_after = 0,
            message = ''update_connection_time'', subject = Some \<lparr>host = ''10.0.0.1'', port = 8444\<rparr>\<rparr>,
          \<lparr>raises = (\<lambda>_. Some (Raised ''locked'')), clock = 100, clock_after = 101,
            message = ''update_connection_time'', subject = Some \<lparr>host = ''10.0.0.1'', port = 8444\<rparr>\<rparr>,
          \<lparr>raises = (\<lambda>_. None), clock = 110, clock_after = 111,
            message = ''update_connection_time'', subject = Some \<lparr>host = ''10.0.0.1'', port = 8444\<rparr>\<rparr>,
          \<lparr>raises = (\<lambda>_. None), clock = 150, clock_after = 151,
            message = ''update_connection_time'', subject = Some \<lparr>host = ''10.0.0.1'', port = 8444\<rparr>\<rparr>,
          \<lparr>raises = (\<lambda>_. None), clock = 180, clock_after = 181,
            message = ''update_connection_time'', subject = Some \<lparr>host = ''10.0.0.1'', port = 8444\<rparr>\<rparr>]), [], None)"
  using update_connection_time_rate_limit [of None
         "[\<lparr>raises = (\<lambda>_. None), clock = 0, clock_after = 0,
            message = ''update_connection_time'', subject = Some \<lparr>host = ''10.0.0.1'', port = 8444\<rparr>\<rparr>,
          \<lparr>raises = (\<lambda>_. Some (Raised ''locked'')), clock = 100, clock_after = 101,
            message = ''update_connection_time'', subject = Some \<lparr>host = ''10.0.0.1'', port = 8444\<rparr>\<rparr>,
          \<lparr>raises = (\<lambda>_. None), clock = 110, clock_after = 111,
            message = ''update_connection_time'', subject = Some \<lparr>host = ''10.0.0.1'', port = 8444\<rparr>\<rparr>,
          \<lparr>raises = (\<lambda>_. None), clock = 150, clock_after = 151,
            message = ''update_connection_time'', subject = Some \<lparr>host = ''10.0.0.1'', port = 8444\<rparr>\<rparr>,
          \<lparr>raises = (\<lambda>_. None), clock = 180, clock_after = 181,
            message = ''update_connection_time'', subject = Some \<lparr>host = ''10.0.0.1'', port = 8444\<rparr>\<rparr>]"
         "fst (process_messages
         \<lparr>connection_time_pretest = Map.empty, relay_queue = None\<rparr>
         [\<lparr>raises = (\<lambda>_. None), clock = 0, clock_after = 0,
            message = ''update_connection_time'', subject = Some \<lparr>host = ''10.0.0.1'', port = 8444\<rparr>\<rparr>,
          \<lparr>raises = (\<lambda>_. Some (Raised ''locked'')), clock = 100, clock_after = 101,
            message = ''update_connection_time'', subject = Some \<lparr>host = ''10.0.0.1'', port = 8444\<rparr>\<rparr>,
          \<lparr>raises = (\<lambda>_. None), clock = 110, clock_after = 111,
            message = ''update_connection_time'', subject = Some \<lparr>host = ''10.0.0.1'', port = 8444\<rparr>\<rparr>,
          \<lparr>raises = (\<lambda>_. None), clock = 150, clock_after = 151,
            message = ''update_connection_time'', subject = Some \<lparr>host = ''10.0.0.1'', port = 8444\<rparr>\<rparr>,
          \<lparr>raises = (\<lambda>_. None), clock = 180, clock_after = 181,
            message = ''update_connection_time'', subject = Some \<lparr>host = ''10.0.0.1'', port = 8444\<rparr>\<rparr>])"
         "snd (process_messages
         \<lparr>connection_time_pretest = Map.empty, relay_queue = None\<rparr>
         [\<lparr>raises = (\<lambda>_. None), clock = 0, clock_after = 0,
            message = ''update_connection_time'', subject = Some \<lparr>host = ''10.0.0.1'', port = 8444\<rparr>\<rparr>,
          \<lparr>raises = (\<lambda>_. Some (Raised ''locked'')), clock = 100, clock_after = 101,
            message = ''update_connection_time'', subject = Some \<lparr>host = ''10.0.0.1'', port = 8444\<rparr>\<rparr>,
          \<lparr>raises = (\<lambda>_. None), clock = 110, clock_after = 111,
            message = ''update_connection_time'', subject = Some \<lparr>host = ''10.0.0.1'', port = 8444\<rparr>\<rparr>,
          \<lparr>raises = (\<lambda>_. None), clock = 150, clock_after = 151,
            message = ''update_connection_time'', subject = Some \<lparr>host = ''10.0.0.1'', port = 8444\<rparr>\<rparr>,
          \<lparr>raises = (\<lambda>_. None), clock = 180, clock_after = 181,
            message = ''update_connection_time'', subject = Some \<lparr>host = ''10.0.0.1'', port = 8444\<rparr>\<rparr>])"
         "\<lparr>raises = (\<lambda>_. None), clock = 200, clock_after = 201,
            message = ''update_connection_time'', subject = Some \<lparr>host = ''10.0.0.1'', port = 8444\<rparr>\<rparr>"
         "\<lparr>host = ''10.0.0.1'', port = 8444\<rparr>"]
  by (simp add: process_message_body_def update_connects_def)

text \<open>
  Claim C10 as the specification words it fails when \<^verbatim>\<open>connect\<close> raises: the reset of line
  101 is skipped and the exception is logged, so after a first event at 0 and a raising
  \<^verbatim>\<open>connect\<close> at 100 seconds, the event at 110 seconds calls \<^verbatim>\<open>connect\<close> again.
\<close>

theorem connect_raises_counterexample:
  "update_connects (snd (process_messages
         \<lparr>connection_time_pretest = Map.empty, relay_queue = None\<rparr>
         [\<lparr>raises = (\<lambda>_. None), clock = 0, clock_after = 0,
            message = ''update_connection_time'', subject = Some \<lparr>host = ''10.0.0.1'', port = 8444\<rparr>\<rparr>,
          \<lparr>raises = (\<lambda>_. Some (Raised ''locked'')), clock = 100, clock_after = 101,
            message = ''update_connection_time'', subject = Some \<lparr>host = ''10.0.0.1'', port = 8444\<rparr>\<rparr>,
          \<lparr>raises = (\<lambda>_. None), clock = 110, clock_after = 111,
            message = ''update_connection_time'', subject = Some \<lparr>host = ''10.0.0.1'', port = 8444\<rparr>\<rparr>]))
       = [(100, \<lparr>host = ''10.0.0.1'', port = 8444\<rparr>, False), (110, \<lparr>host = ''10.0.0.1'', port = 8444\<rparr>, True)]
   \<and> (110::real) - 100 < 60"
  by (simp add: process_message_body_def update_connects_def)

section \<open>Properties of the answer to a request for peers\<close>





section \<open>Properties of the address relay\<close>

lemma relay_hashes_ok:
  assumes "to_bytes 32 key = Inr key_bytes" and "to_bytes 3 cur_day = Inr day_bytes"
  shows "relay_hashes std_hash get_key key cur_day connections =
     Inr (map (\<lambda>c. (neighbour_hash std_hash get_key key_bytes day_bytes c, c)) connections)"
  using assms by (induction connections) (simp_all add: cur_hash_def neighbour_hash_def)

lemma insort_key_paired:
  "insort_key fst (h x, x) (map (\<lambda>c. (h c, c)) ys) = map (\<lambda>c. (h c, c)) (insort_key h x ys)"
  by (induction ys) simp_all

lemma sort_key_paired:
  "sort_key fst (map (\<lambda>c. (h c, c)) xs) = map (\<lambda>c. (h c, c)) (sort_key h xs)"
  by (induction xs) (simp_all add: insort_key_paired)

lemma relay_loop_step:
  "index < num_peers \<Longrightarrow>
   relay_loop index num_peers ((h, connection) # rest) relay_peer known =
     (case relay_to relay_peer connection known of
        (known1, msgs1) \<Rightarrow>
          (case relay_loop (index + 1) num_peers rest relay_peer known1 of
             (known2, msgs2) \<Rightarrow> (known2, msgs1 @ msgs2)))"
  by (auto simp: relay_to_def Let_def split: option.splits prod.splits)

lemma relay_loop_relay_to_all:
  "relay_loop index num_peers pairs relay_peer known =
     relay_to_all relay_peer (map snd (take (num_peers - index) pairs)) known"
proof (induction pairs arbitrary: index known)
  case Nil
  show ?case by simp
next
  case (Cons pair pairs)
  obtain h connection where pair: "pair = (h, connection)" by (cases pair)
  show ?case
  proof (cases "index < num_peers")
    case False
    then show ?thesis by (simp add: pair)
  next
    case True
    then obtain d where d: "num_peers - index = Suc d" by (cases "num_peers - index") auto
    then have d': "num_peers - Suc index = d" by simp
    show ?thesis
      unfolding pair relay_loop_step [OF True]
      by (simp add: d Cons.IH d' split: prod.splits)
  qed
qed


lemma relay_body_chosen:
  assumes "to_bytes 32 key = Inr key_bytes"
    and "to_bytes 3 (py_int now div 86400) = Inr day_bytes"
  shows "address_relay_body std_hash get_key key now connections (relay_peer, num_peers) known =
     (case relay_to_all relay_peer
             (chosen_neighbours (neighbour_hash std_hash get_key key_bytes day_bytes)
                num_peers connections) known of
        (known1, msgs) \<Rightarrow> (known1, msgs, None))"
proof -
  have "map snd (take num_peers (map (\<lambda>c. (h c, c)) xs)) = take num_peers xs"
    for h :: "connection \<Rightarrow> nat" and xs
    by (simp add: take_map comp_def)
  then show ?thesis
    using assms
    by (simp add: address_relay_body_def relay_hashes_ok [OF assms(1)] sort_key_paired
          relay_loop_relay_to_all chosen_neighbours_def)
qed

lemma sort_key_set_unique:
  assumes "distinct xs" and "distinct ys" and "set ys = set xs" and "inj_on h (set xs)"
  shows "sort_key h ys = sort_key h xs"
proof (rule map_sorted_distinct_set_unique [where f = h])
  show "inj_on h (set (sort_key h ys) \<union> set (sort_key h xs))" using assms by simp
  show "sorted (map h (sort_key h ys))" by (rule sorted_sort_key)
  show "sorted (map h (sort_key h xs))" by (rule sorted_sort_key)
  show "distinct (map h (sort_key h ys))" using assms by (simp add: distinct_map)
  show "distinct (map h (sort_key h xs))" using assms by (simp add: distinct_map)
  show "set (sort_key h ys) = set (sort_key h xs)" using assms by simp
qed

text \<open>
  Claim C5, as the code has it. When the key and the day fit their byte strings, the relay
  of one queue item treats exactly the first \<^verbatim>\<open>num_peers\<close> of the connected full nodes
  sorted ascending by \<open>h = H(key || neighbour key || cur_day)\<close>, where \<open>cur_day\<close> is the
  clock divided by 86400; the sort rearranges the neighbours and keeps neighbours of equal
  hash in the order in which the pool lists them. Any other listing of the same
  neighbours, each listed once, gives the same choice as long as no two of them have the
  same hash.
\<close>

theorem relay_choice_by_hash_order:
  assumes "to_bytes 32 key = Inr key_bytes"
    and "to_bytes 3 (py_int now div 86400) = Inr day_bytes"
  shows "address_relay_body std_hash get_key key now connections (relay_peer, num_peers) known =
     (case relay_to_all relay_peer
             (chosen_neighbours (neighbour_hash std_hash get_key key_bytes day_bytes)
                num_peers connections) known of
        (known1, msgs) \<Rightarrow> (known1, msgs, None))
   \<and> sorted (map (neighbour_hash std_hash get_key key_bytes day_bytes)
               (sort_key (neighbour_hash std_hash get_key key_bytes day_bytes) connections))
   \<and> mset (sort_key (neighbour_hash std_hash get_key key_bytes day_bytes) connections)
       = mset connections
   \<and> (\<forall>k. filter (\<lambda>c. neighbour_hash std_hash get_key key_bytes day_bytes c = k)
               (sort_key (neighbour_hash std_hash get_key key_bytes day_bytes) connections)
           = filter (\<lambda>c. neighbour_hash std_hash get_key key_bytes day_bytes c = k) connections)
   \<and> (\<forall>others. distinct connections \<and> distinct others \<and> set others = set connections
          \<and> inj_on (neighbour_hash std_hash get_key key_bytes day_bytes) (set connections)
        \<longrightarrow> chosen_neighbours (neighbour_hash std_hash get_key key_bytes day_bytes)
               num_peers others =
            chosen_neighbours (neighbour_hash std_hash get_key key_bytes day_bytes)
               num_peers connections)"
  using relay_body_chosen [OF assms]
  by (auto simp: chosen_neighbours_def sort_key_stable dest: sort_key_set_unique)



theorem relay_choice_by_hash_order_witness:
  "to_bytes 32 1 = Inr (map (\<lambda>i. word_of_int (1 div 256 ^ (31 - i))) [0..<32])
   \<and> to_bytes 3 (py_int 1600000000 div 86400) =
       Inr (map (\<lambda>i. word_of_int (18518 div 256 ^ (2 - i))) [0..<3])
   \<and> chosen_neighbours
        (neighbour_hash (\<lambda>bs. [bs ! 32]) (\<lambda>p. [word_of_nat (port p)])
           (map (\<lambda>i. word_of_int (1 div 256 ^ (31 - i))) [0..<32])
           (map (\<lambda>i. word_of_int (18518 div 256 ^ (2 - i))) [0..<3]))
        1
        [\<lparr>conn_peer_info = \<lparr>host = ''10.0.0.1'', port = 1\<rparr>, node_id = Some [1]\<rparr>,
         \<lparr>conn_peer_info = \<lparr>host = ''10.0.0.2'', port = 2\<rparr>, node_id = Some [2]\<rparr>]
     = chosen_neighbours
        (neighbour_hash (\<lambda>bs. [bs ! 32]) (\<lambda>p. [word_of_nat (port p)])
           (map (\<lambda>i. word_of_int (1 div 256 ^ (31 - i))) [0..<32])
           (map (\<lambda>i. word_of_int (18518 div 256 ^ (2 - i))) [0..<3]))
        1
        [\<lparr>conn_peer_info = \<lparr>host = ''10.0.0.2'', port = 2\<rparr>, node_id = Some [2]\<rparr>,
         \<lparr>conn_peer_info = \<lparr>host = ''10.0.0.1'', port = 1\<rparr>, node_id = Some [1]\<rparr>]
   \<and> chosen_neighbours
        (neighbour_hash (\<lambda>bs. [bs ! 32]) (\<lambda>p. [word_of_nat (port p)])
           (map (\<lambda>i. word_of_int (1 div 256 ^ (31 - i))) [0..<32])
           (map (\<lambda>i. word_of_int (18518 div 256 ^ (2 - i))) [0..<3]))
        1
        [\<lparr>conn_peer_info = \<lparr>host = ''10.0.0.2'', port = 2\<rparr>, node_id = Some [2]\<rparr>,
         \<lparr>conn_peer_info = \<lparr>host = ''10.0.0.1'', port = 1\<rparr>, node_id = Some [1]\<rparr>]
     = [\<lparr>conn_peer_info = \<lparr>host = ''10.0.0.1'', port = 1\<rparr>, node_id = Some [1]\<rparr>]"
proof -
  have k: "to_bytes 32 1 = Inr (map (\<lambda>i. word_of_int (1 div 256 ^ (31 - i))) [0..<32])"
    by (simp add: to_bytes_def)
  have d: "to_bytes 3 (py_int 1600000000 div 86400) =
       Inr (map (\<lambda>i. word_of_int (18518 div 256 ^ (2 - i))) [0..<3])"
    by (simp add: to_bytes_def py_int_def)
  have h: "neighbour_hash (\<lambda>bs. [bs ! 32]) (\<lambda>p. [word_of_nat (port p)])
           (map (\<lambda>i. word_of_int (1 div 256 ^ (31 - i))) [0..<32])
           (map (\<lambda>i. word_of_int (18518 div 256 ^ (2 - i))) [0..<3]) c
        = port (conn_peer_info c) mod 256" for c
    by (simp add: neighbour_hash_def from_bytes_def nth_append unat_of_nat)
  have inj: "inj_on (neighbour_hash (\<lambda>bs. [bs ! 32]) (\<lambda>p. [word_of_nat (port p)])
           (map (\<lambda>i. word_of_int (1 div 256 ^ (31 - i))) [0..<32])
           (map (\<lambda>i. word_of_int (18518 div 256 ^ (2 - i))) [0..<3]))
        (set [\<lparr>conn_peer_info = \<lparr>host = ''10.0.0.2'', port = 2\<rparr>, node_id = Some [2]\<rparr>,
         \<lparr>conn_peer_info = \<lparr>host = ''10.0.0.1'', port = 1\<rparr>, node_id = Some [1]\<rparr>])"
    unfolding inj_on_def by (simp add: h)
  show ?thesis
    using k d inj relay_choice_by_hash_order [OF k d, of "\<lambda>bs. [bs ! 32]" "\<lambda>p. [word_of_nat (port p)]"
        "[\<lparr>conn_peer_info = \<lparr>host = ''10.0.0.2'', port = 2\<rparr>, node_id = Some [2]\<rparr>,
         \<lparr>conn_peer_info = \<lparr>host = ''10.0.0.1'', port = 1\<rparr>, node_id = Some [1]\<rparr>]"
        "\<lparr>host = ''10.0.0.9'', port = 8444, timestamp = 1600000000\<rparr>" 1 Map.empty]
    by (simp add: chosen_neighbours_def h)
qed

lemma relay_tie_follows_listing:
  assumes "conn_peer_info a = conn_peer_info b"
  shows "chosen_neighbours (neighbour_hash std_hash get_key key_bytes day_bytes) 1 [a, b] = [a]
       \<and> chosen_neighbours (neighbour_hash std_hash get_key key_bytes day_bytes) 1 [b, a] = [b]"
  using assms by (simp add: chosen_neighbours_def neighbour_hash_def)

text \<open>
  Claim C5 as the specification words it fails for neighbours of equal hash. Two
  connections to one endpoint have the same hash whatever the hash function is, and the
  stable sort leaves them in the order of the listing: the same two neighbours, listed the
  other way round, make the relay choose the other one.
\<close>

theorem relay_same_endpoint_counterexample:
  "set [\<lparr>conn_peer_info = \<lparr>host = ''10.0.0.1'', port = 8444\<rparr>, node_id = Some [1]\<rparr>,
        \<lparr>conn_peer_info = \<lparr>host = ''10.0.0.1'', port = 8444\<rparr>, node_id = Some [2]\<rparr>]
     = set [\<lparr>conn_peer_info = \<lparr>host = ''10.0.0.1'', port = 8444\<rparr>, node_id = Some [2]\<rparr>,
            \<lparr>conn_peer_info = \<lparr>host = ''10.0.0.1'', port = 8444\<rparr>, node_id = Some [1]\<rparr>]
   \<and> fst (snd (address_relay_body (\<lambda>bs. bs) (\<lambda>p. [word_of_nat (port p)]) 1 1600000000
        [\<lparr>conn_peer_info = \<lparr>host = ''10.0.0.1'', port = 8444\<rparr>, node_id = Some [1]\<rparr>,
         \<lparr>conn_peer_info = \<lparr>host = ''10.0.0.1'', port = 8444\<rparr>, node_id = Some [2]\<rparr>]
        (\<lparr>host = ''10.0.0.9'', port = 8444, timestamp = 1600000000\<rparr>, 1) Map.empty))
     = [respond_peers_full_node FULL_NODE [\<lparr>host = ''10.0.0.9'', port = 8444, timestamp = 1600000000\<rparr>] SPECIFIC (Some [1])]
   \<and> fst (snd (address_relay_body (\<lambda>bs. bs) (\<lambda>p. [word_of_nat (port p)]) 1 1600000000
        [\<lparr>conn_peer_info = \<lparr>host = ''10.0.0.1'', port = 8444\<rparr>, node_id = Some [2]\<rparr>,
         \<lparr>conn_peer_info = \<lparr>host = ''10.0.0.1'', port = 8444\<rparr>, node_id = Some [1]\<rparr>]
        (\<lparr>host = ''10.0.0.9'', port = 8444, timestamp = 1600000000\<rparr>, 1) Map.empty))
     = [respond_peers_full_node FULL_NODE [\<lparr>host = ''10.0.0.9'', port = 8444, timestamp = 1600000000\<rparr>] SPECIFIC (Some [2])]"
proof -
  have k: "to_bytes 32 1 = Inr (map (\<lambda>i. word_of_int (1 div 256 ^ (31 - i))) [0..<32])"
    by (simp add: to_bytes_def)
  have d: "to_bytes 3 (py_int 1600000000 div 86400) =
       Inr (map (\<lambda>i. word_of_int (18518 div 256 ^ (2 - i))) [0..<3])"
    by (simp add: to_bytes_def py_int_def)
  show ?thesis
    by (simp add: relay_body_chosen [OF k d] chosen_neighbours_def neighbour_hash_def
          relay_to_def insert_commute)
qed


section \<open>Properties of the discovery loop\<close>

lemma feeler_uniform_range: "0 < feeler_uniform raw \<and> feeler_uniform raw \<le> 1"
proof -
  have "raw mod 2 ^ 48 < (2::nat) ^ 48" by simp
  then have "real (raw mod 2 ^ 48) < 2 ^ 48"
    by (metis of_nat_less_iff of_nat_numeral of_nat_power)
  then have "real (raw mod 2 ^ 48) * 0.0000000000000035527136788
      < 2 ^ 48 * 0.0000000000000035527136788" by simp
  also have "\<dots> < (1::real)" by simp
  finally show ?thesis by (simp add: feeler_uniform_def)
qed

text \<open>
  Claim C7. The iteration is a feeler exactly when no outbound connection is needed (the
  deficit, floored at 0, is 0) and the clock has passed the scheduled feeler time; so a
  feeler never occurs while the target exceeds the number of outbound connections. When
  a feeler fires, the next feeler time is the clock plus \<open>- ln U * 240\<close> seconds for a
  \<open>U\<close> in \<open>(0, 1]\<close>, in microseconds and with the half microsecond that line 133 adds for
  rounding; otherwise the scheduled time stays.
\<close>

theorem feeler_only_without_deficit:
  assumes "feeler_decision target_outbound_count outbound now next_feeler raw = (fires, next')"
  shows "(fires \<longleftrightarrow>
            num_needed_peers target_outbound_count outbound = 0 \<and> now * 1000000 > next_feeler)
       \<and> (fires \<longrightarrow> target_outbound_count - outbound \<le> 0)
       \<and> (fires \<longrightarrow>
            0 < feeler_uniform raw \<and> feeler_uniform raw \<le> 1 \<and>
            next' = now * 1000000 + (- ln (feeler_uniform raw)) * 240 * 1000000 + 0.5)
       \<and> (\<not> fires \<longrightarrow> next' = next_feeler)"
  using assms feeler_uniform_range [of raw]
  by (auto simp: feeler_decision_def num_needed_peers_def poisson_next_send_def randrange_def
        feeler_uniform_def Let_def algebra_simps split: if_splits)

theorem feeler_only_without_deficit_witness:
  "feeler_decision 8 8 1600000000 1599999999000000 0 = (True, 1600000000000000.5)
   \<and> num_needed_peers 8 8 = 0 \<and> feeler_uniform 0 = 1"
  using feeler_only_without_deficit [of 8 8 1600000000 1599999999000000 0 True "1600000000000000.5"]
  by (simp add: feeler_decision_def num_needed_peers_def poisson_next_send_def randrange_def
        feeler_uniform_def)

lemma selections_bounded:
  "selections (fst (select_loop cfg env tries s)) \<le> max_tries cfg - tries"
proof (induction cfg env tries s rule: select_loop.induct)
  case (1 cfg env tries s)
  show ?case
  proof (cases "got_peer s \<or> closed_now (env tries) \<or> tries + 1 > max_tries cfg")
    case True
    then show ?thesis
      by (subst select_loop.simps) (auto simp: selections_def)
  next
    case False
    then have room: "Suc (max_tries cfg - (tries + 1)) \<le> max_tries cfg - tries" by auto
    show ?thesis
    proof (cases "tried_collision (env tries)")
      case (Some info)
      show ?thesis
      proof (cases "consider_candidate cfg (env tries) (tries + 1) info (s\<lparr>has_collision := True\<rparr>)")
        case (Inl ex)
        then show ?thesis using False Some
          by (subst select_loop.simps) (auto simp: selections_def)
      next
        case (Inr s1)
        have "selections (fst (select_loop cfg env (tries + 1) s1)) \<le> max_tries cfg - (tries + 1)"
          using "1.IH"(2) False Some Inr by auto
        then show ?thesis using False Some Inr room
          by (subst select_loop.simps) (auto simp: selections_def split: prod.splits)
      qed
    next
      case None
      show ?thesis
      proof (cases "selected_peer (env tries) (is_feeler cfg)")
        case no: None
        then show ?thesis using False None
          by (subst select_loop.simps) (auto simp: selections_def)
      next
        case (Some info)
        show ?thesis
        proof (cases "consider_candidate cfg (env tries) (tries + 1) info s")
          case (Inl ex)
          then show ?thesis using False None Some
            by (subst select_loop.simps) (auto simp: selections_def)
        next
          case (Inr s1)
          have "selections (fst (select_loop cfg env (tries + 1) s1)) \<le> max_tries cfg - (tries + 1)"
            using "1.IH"(1) False None Some Inr by auto
          then show ?thesis using False None Some Inr room
            by (subst select_loop.simps) (auto simp: selections_def split: prod.splits)
        qed
      qed
    qed
  qed
qed

lemma consider_candidate_verdict:
  assumes "\<not> got_peer s" and "consider_candidate cfg e tries info s = Inr s'"
  shows "got_peer s' \<longleftrightarrow> \<not> rejected cfg tries info (local_endpoint e s)"
  using assms
  by (auto simp: consider_candidate_def rejected_def local_endpoint_def Let_def
           split: if_splits sum.splits)

lemma consider_candidate_refreshes:
  assumes "consider_candidate cfg e tries info s = Inr s'"
    and "is_feeler cfg \<or> get_group cfg (ext_peer_info info) \<notin> set (groups cfg)"
    and "ext_peer_info info \<notin> set (connected cfg)"
    and "\<not> (loop_now cfg - real_of_int (last_try info) < 3600 \<and> tries < 30)"
  shows "local_peerinfo s' = local_endpoint e s"
  using assms
  by (auto simp: consider_candidate_def local_endpoint_def Let_def split: if_splits sum.splits)

lemma consider_candidate_addr:
  assumes "consider_candidate cfg e tries info s = Inr s'"
  shows "addr s' =
     (if (\<not> is_feeler cfg \<and> get_group cfg (ext_peer_info info) \<in> set (groups cfg))
         \<or> ext_peer_info info \<in> set (connected cfg)
      then None else Some (ext_peer_info info))"
  using assms
  by (auto simp: consider_candidate_def Let_def split: if_splits sum.splits)

lemma consider_candidate_verdict_after:
  assumes "\<not> got_peer s" and "consider_candidate cfg e tries info s = Inr s'"
  shows "got_peer s' \<longleftrightarrow> \<not> rejected cfg tries info (local_peerinfo s')"
  using assms
  by (auto simp: consider_candidate_def rejected_def Let_def split: if_splits sum.splits)

lemma consider_candidate_accepts:
  assumes "\<not> got_peer s" and "consider_candidate cfg e tries info s = Inr s'" and "got_peer s'"
  shows "addr s' = Some (ext_peer_info info)"
  using assms
  by (auto simp: consider_candidate_def Let_def split: if_splits sum.splits)


lemma select_loop_done: "got_peer s \<Longrightarrow> select_loop cfg env tries s = ([], Inr s)"
  by (subst select_loop.simps) simp

lemma select_loop_accepts:
  assumes "select_loop cfg env tries s = (calls, Inr s')" and "\<not> got_peer s" and "got_peer s'"
  shows "\<exists>t info. tries \<le> t \<and> t < max_tries cfg \<and> candidate cfg (env t) = Some info
           \<and> addr s' = Some (ext_peer_info info)
           \<and> \<not> rejected cfg (t + 1) info (local_peerinfo s')"
  using assms
proof (induction cfg env tries s arbitrary: calls rule: select_loop.induct)
  case (1 cfg env tries s)
  note run = "1.prems"(1) and fresh = "1.prems"(2) and got = "1.prems"(3)
  have open_: "\<not> closed_now (env tries)"
    using run fresh got by (subst (asm) select_loop.simps) (auto split: if_splits)
  have room: "\<not> max_tries cfg < tries + 1"
    using run fresh got open_ by (subst (asm) select_loop.simps) (auto split: if_splits)
  have step: "\<exists>t info. tries \<le> t \<and> t < max_tries cfg \<and> candidate cfg (env t) = Some info
           \<and> addr s' = Some (ext_peer_info info)
           \<and> \<not> rejected cfg (t + 1) info (local_peerinfo s')"
    if cand: "candidate cfg (env tries) = Some info"
      and start: "\<not> got_peer s0"
      and cons: "consider_candidate cfg (env tries) (tries + 1) info s0 = Inr s1"
      and rest: "select_loop cfg env (tries + 1) s1 = (calls1, Inr s')"
      and IH: "\<And>calls. select_loop cfg env (tries + 1) s1 = (calls, Inr s') \<Longrightarrow> \<not> got_peer s1
                \<Longrightarrow> got_peer s' \<Longrightarrow>
                \<exists>t info. tries + 1 \<le> t \<and> t < max_tries cfg \<and> candidate cfg (env t) = Some info
                  \<and> addr s' = Some (ext_peer_info info)
                  \<and> \<not> rejected cfg (t + 1) info (local_peerinfo s')"
    for info s0 s1 calls1
  proof (cases "got_peer s1")
    case True
    then have "s' = s1" using rest by (simp add: select_loop_done)
    then show ?thesis
      using cand room True consider_candidate_verdict_after [OF start cons]
        consider_candidate_accepts [OF start cons]
      by (intro exI [of _ tries] exI [of _ info]) auto
  next
    case False
    from IH [OF rest False got] obtain t info' where
      "tries + 1 \<le> t" "t < max_tries cfg" "candidate cfg (env t) = Some info'"
      "addr s' = Some (ext_peer_info info')" "\<not> rejected cfg (t + 1) info' (local_peerinfo s')"
      by blast
    then show ?thesis by (intro exI [of _ t] exI [of _ info']) auto
  qed
  show ?case
  proof (cases "tried_collision (env tries)")
    case (Some info)
    then have cand: "candidate cfg (env tries) = Some info" by (simp add: candidate_def)
    from run fresh open_ room Some obtain s1 calls1 where
      cons: "consider_candidate cfg (env tries) (tries + 1) info (s\<lparr>has_collision := True\<rparr>) = Inr s1"
      and rest: "select_loop cfg env (tries + 1) s1 = (calls1, Inr s')"
      by (subst (asm) select_loop.simps) (auto split: sum.splits prod.splits)
    show ?thesis
      by (rule step [OF cand _ cons rest]) (use fresh in simp,
          rule "1.IH"(2), use fresh open_ room Some cons in auto)
  next
    case None
    from run fresh got open_ room None obtain info s1 calls1 where
      sel: "selected_peer (env tries) (is_feeler cfg) = Some info"
      and cons: "consider_candidate cfg (env tries) (tries + 1) info s = Inr s1"
      and rest: "select_loop cfg env (tries + 1) s1 = (calls1, Inr s')"
      by (subst (asm) select_loop.simps) (auto split: sum.splits prod.splits option.splits if_splits)
    have cand: "candidate cfg (env tries) = Some info" using None sel by (simp add: candidate_def)
    show ?thesis
      by (rule step [OF cand fresh cons rest]) (rule "1.IH"(1), use fresh open_ room None sel cons in auto)
  qed
qed


text \<open>
  What holds of the tries and of the verdicts. With \<^verbatim>\<open>max_tries\<close> set from the number of
  groups (10 below 3 groups, 25 up to 5, 50 otherwise), a run of the inner loop asks for
  at most \<^verbatim>\<open>max_tries\<close> candidates. A candidate sets \<^verbatim>\<open>got_peer\<close> exactly when none of the
  four reasons to reject it holds, the local endpoint being the one asked for anew when
  the last answer is old or missing; and a run that ends with \<^verbatim>\<open>got_peer\<close> ends with a
  candidate of one of its tries that none of the four reasons rejects.
\<close>

lemma select_loop_tries_and_verdicts:
  assumes "max_tries cfg = max_tries_for (length (groups cfg))"
  shows "max_tries_for (length (groups cfg)) =
           (if length (groups cfg) < 3 then 10 else if length (groups cfg) \<le> 5 then 25 else 50)
       \<and> selections (fst (select_loop cfg env 0 s)) \<le> max_tries_for (length (groups cfg))
       \<and> (\<forall>e tries info s'.
             \<not> got_peer s \<and> consider_candidate cfg e tries info s = Inr s' \<longrightarrow>
             (got_peer s' \<longleftrightarrow> \<not> rejected cfg tries info (local_endpoint e s)))
       \<and> (\<forall>calls s'.
             select_loop cfg env 0 s = (calls, Inr s') \<and> \<not> got_peer s \<and> got_peer s' \<longrightarrow>
             (\<exists>t info. t < max_tries_for (length (groups cfg)) \<and> candidate cfg (env t) = Some info
                \<and> addr s' = Some (ext_peer_info info)
                \<and> \<not> rejected cfg (t + 1) info (local_peerinfo s')))"
proof (intro conjI allI impI)
  show "max_tries_for (length (groups cfg)) =
           (if length (groups cfg) < 3 then 10 else if length (groups cfg) \<le> 5 then 25 else 50)"
    by (simp add: max_tries_for_def)
  show "selections (fst (select_loop cfg env 0 s)) \<le> max_tries_for (length (groups cfg))"
    using selections_bounded [of cfg env 0 s] assms by simp
  show "got_peer s' \<longleftrightarrow> \<not> rejected cfg tries info (local_endpoint e s)"
    if "\<not> got_peer s \<and> consider_candidate cfg e tries info s = Inr s'" for e tries info s'
    using that consider_candidate_verdict by blast
  show "\<exists>t info. t < max_tries_for (length (groups cfg)) \<and> candidate cfg (env t) = Some info
                \<and> addr s' = Some (ext_peer_info info)
                \<and> \<not> rejected cfg (t + 1) info (local_peerinfo s')"
    if "select_loop cfg env 0 s = (calls, Inr s') \<and> \<not> got_peer s \<and> got_peer s'" for calls s'
    using that select_loop_accepts [of cfg env 0 s calls s'] assms by auto
qed

lemma select_loop_tries_and_verdicts_example:
  "max_tries 
     \<lparr>get_group = (\<lambda>p. take 4 (host p)), is_feeler = False, groups = [''10.0''],
      connected = [\<lparr>host = ''12.0.0.1'', port = 8444\<rparr>], loop_now = 1600000000, max_tries = 10\<rparr> = max_tries_for (length (groups 
     \<lparr>get_group = (\<lambda>p. take 4 (host p)), is_feeler = False, groups = [''10.0''],
      connected = [\<lparr>host = ''12.0.0.1'', port = 8444\<rparr>], loop_now = 1600000000, max_tries = 10\<rparr>))
   \<and> select_loop 
     \<lparr>get_group = (\<lambda>p. take 4 (host p)), is_feeler = False, groups = [''10.0''],
      connected = [\<lparr>host = ''12.0.0.1'', port = 8444\<rparr>], loop_now = 1600000000, max_tries = 10\<rparr> 
     (\<lambda>t. if t = 0 then \<lparr>closed_now = False, tried_collision = None,
              selected_peer = (\<lambda>_. Some \<lparr>ext_peer_info = \<lparr>host = ''10.0.0.5'', port = 8444\<rparr>, last_try = 0\<rparr>),
              try_clock = 1600000000, local_now = None,
              try_clock_after = 1600000000\<rparr>
           else \<lparr>closed_now = False, tried_collision = None,
              selected_peer = (\<lambda>_. Some \<lparr>ext_peer_info = \<lparr>host = ''11.0.0.5'', port = 8444\<rparr>, last_try = 0\<rparr>),
              try_clock = 1600000000, local_now = None,
              try_clock_after = 1600000000\<rparr>) 0 
     \<lparr>got_peer = False, addr = None, empty_tables = False, has_collision = False,
      local_peerinfo = Some \<lparr>host = ''13.0.0.1'', port = 8444\<rparr>,
      last_timestamp_local_info = 1600000000\<rparr> =
       ([SelectTriedCollision, SelectPeer False, SelectTriedCollision, SelectPeer False], Inr 
     \<lparr>got_peer = True, addr = Some \<lparr>host = ''11.0.0.5'', port = 8444\<rparr>, empty_tables = False,
      has_collision = False, local_peerinfo = Some \<lparr>host = ''13.0.0.1'', port = 8444\<rparr>,
      last_timestamp_local_info = 1600000000\<rparr>)
   \<and> selections (fst (select_loop 
     \<lparr>get_group = (\<lambda>p. take 4 (host p)), is_feeler = False, groups = [''10.0''],
      connected = [\<lparr>host = ''12.0.0.1'', port = 8444\<rparr>], loop_now = 1600000000, max_tries = 10\<rparr> 
     (\<lambda>t. if t = 0 then \<lparr>closed_now = False, tried_collision = None,
              selected_peer = (\<lambda>_. Some \<lparr>ext_peer_info = \<lparr>host = ''10.0.0.5'', port = 8444\<rparr>, last_try = 0\<rparr>),
              try_clock = 1600000000, local_now = None,
              try_clock_after = 1600000000\<rparr>
           else \<lparr>closed_now = False, tried_collision = None,
              selected_peer = (\<lambda>_. Some \<lparr>ext_peer_info = \<lparr>host = ''11.0.0.5'', port = 8444\<rparr>, last_try = 0\<rparr>),
              try_clock = 1600000000, local_now = None,
              try_clock_after = 1600000000\<rparr>) 0 
     \<lparr>got_peer = False, addr = None, empty_tables = False, has_collision = False,
      local_peerinfo = Some \<lparr>host = ''13.0.0.1'', port = 8444\<rparr>,
      last_timestamp_local_info = 1600000000\<rparr>)) = 2
   \<and> consider_candidate 
     \<lparr>get_group = (\<lambda>p. take 4 (host p)), is_feeler = False, groups = [''10.0''],
      connected = [\<lparr>host = ''12.0.0.1'', port = 8444\<rparr>], loop_now = 1600000000, max_tries = 10\<rparr> \<lparr>closed_now = False, tried_collision = None,
              selected_peer = (\<lambda>_. Some \<lparr>ext_peer_info = \<lparr>host = ''11.0.0.5'', port = 8444\<rparr>, last_try = 0\<rparr>),
              try_clock = 1600000000, local_now = None,
              try_clock_after = 1600000000\<rparr> 2 \<lparr>ext_peer_info = \<lparr>host = ''11.0.0.5'', port = 8444\<rparr>, last_try = 0\<rparr> 
     \<lparr>got_peer = False, addr = None, empty_tables = False, has_collision = False,
      local_peerinfo = Some \<lparr>host = ''13.0.0.1'', port = 8444\<rparr>,
      last_timestamp_local_info = 1600000000\<rparr> = Inr 
     \<lparr>got_peer = True, addr = Some \<lparr>host = ''11.0.0.5'', port = 8444\<rparr>, empty_tables = False,
      has_collision = False, local_peerinfo = Some \<lparr>host = ''13.0.0.1'', port = 8444\<rparr>,
      last_timestamp_local_info = 1600000000\<rparr>
   \<and> \<not> rejected 
     \<lparr>get_group = (\<lambda>p. take 4 (host p)), is_feeler = False, groups = [''10.0''],
      connected = [\<lparr>host = ''12.0.0.1'', port = 8444\<rparr>], loop_now = 1600000000, max_tries = 10\<rparr> 2 \<lparr>ext_peer_info = \<lparr>host = ''11.0.0.5'', port = 8444\<rparr>, last_try = 0\<rparr> (Some \<lparr>host = ''13.0.0.1'', port = 8444\<rparr>)
   \<and> rejected 
     \<lparr>get_group = (\<lambda>p. take 4 (host p)), is_feeler = False, groups = [''10.0''],
      connected = [\<lparr>host = ''12.0.0.1'', port = 8444\<rparr>], loop_now = 1600000000, max_tries = 10\<rparr> 1 \<lparr>ext_peer_info = \<lparr>host = ''10.0.0.5'', port = 8444\<rparr>, last_try = 0\<rparr>
        (Some \<lparr>host = ''13.0.0.1'', port = 8444\<rparr>)"
  using select_loop_tries_and_verdicts [of "\<lparr>get_group = (\<lambda>p. take 4 (host p)), is_feeler = False, groups = [''10.0''],
      connected = [\<lparr>host = ''12.0.0.1'', port = 8444\<rparr>], loop_now = 1600000000, max_tries = 10\<rparr>" "(\<lambda>t. if t = 0 then \<lparr>closed_now = False, tried_collision = None,
              selected_peer = (\<lambda>_. Some \<lparr>ext_peer_info = \<lparr>host = ''10.0.0.5'', port = 8444\<rparr>, last_try = 0\<rparr>),
              try_clock = 1600000000, local_now = None,
              try_clock_after = 1600000000\<rparr>
           else \<lparr>closed_now = False, tried_collision = None,
              selected_peer = (\<lambda>_. Some \<lparr>ext_peer_info = \<lparr>host = ''11.0.0.5'', port = 8444\<rparr>, last_try = 0\<rparr>),
              try_clock = 1600000000, local_now = None,
              try_clock_after = 1600000000\<rparr>)" "\<lparr>got_peer = False, addr = None, empty_tables = False, has_collision = False,
      local_peerinfo = Some \<lparr>host = ''13.0.0.1'', port = 8444\<rparr>,
      last_timestamp_local_info = 1600000000\<rparr>"]
  by (simp add: select_loop.simps consider_candidate_def max_tries_for_def selections_def
        rejected_def)

text \<open>
  A candidate turned down for a recent \<^verbatim>\<open>last_try\<close> is not accepted, but lines 233 and 241
  leave it in \<^verbatim>\<open>addr\<close>: when the next selection returns nothing, the loop ends with that
  candidate still in \<^verbatim>\<open>addr\<close>.
\<close>

lemma turned_down_candidate_stays_in_addr:
  "select_loop
     \<lparr>get_group = (\<lambda>p. take 4 (host p)), is_feeler = False, groups = [''10.0''],
      connected = [], loop_now = 1600000000, max_tries = 10\<rparr>
     (\<lambda>t. if t = 0
          then \<lparr>closed_now = False, tried_collision = None,
                selected_peer = (\<lambda>_. Some \<lparr>ext_peer_info = \<lparr>host = ''11.0.0.5'', port = 8444\<rparr>,
                                            last_try = 1599999990\<rparr>),
                try_clock = 1600000000, local_now = None,
              try_clock_after = 1600000000\<rparr>
          else \<lparr>closed_now = False, tried_collision = None, selected_peer = (\<lambda>_. None),
                try_clock = 1600000000, local_now = None,
              try_clock_after = 1600000000\<rparr>)
     0
     \<lparr>got_peer = False, addr = None, empty_tables = False, has_collision = False,
      local_peerinfo = Some \<lparr>host = ''13.0.0.1'', port = 8444\<rparr>,
      last_timestamp_local_info = 1600000000\<rparr> =
   ([SelectTriedCollision, SelectPeer False, SelectTriedCollision, SelectPeer False],
    Inr \<lparr>got_peer = False, addr = Some \<lparr>host = ''11.0.0.5'', port = 8444\<rparr>,
         empty_tables = True, has_collision = False,
         local_peerinfo = Some \<lparr>host = ''13.0.0.1'', port = 8444\<rparr>,
         last_timestamp_local_info = 1600000000\<rparr>)"
  by (simp add: select_loop.simps consider_candidate_def)

text \<open>
  Claim C8 at a failing input. No outbound connection exists yet, so 8 are needed and
  \<^verbatim>\<open>max_tries\<close> is 10. The first candidate is the node's own endpoint, last tried long
  ago: line 241 rejects it, but leaves it in \<^verbatim>\<open>addr\<close>, where lines 226 and 229 clear
  \<^verbatim>\<open>addr\<close> before they go on. The second selection returns nothing and the loop ends. Line
  251 then finds \<^verbatim>\<open>addr\<close> set and dials it: the rejected candidate, the node's own endpoint,
  is connected to.
\<close>

theorem rejected_candidate_is_dialled:
  "rejected 
     \<lparr>get_group = (\<lambda>p. take 4 (host p)), is_feeler = False, groups = [],
      connected = [], loop_now = 1600000000, max_tries = 10\<rparr> 1 \<lparr>ext_peer_info = \<lparr>host = ''13.0.0.1'', port = 8444\<rparr>, last_try = 0\<rparr> (Some \<lparr>host = ''13.0.0.1'', port = 8444\<rparr>)
   \<and> select_loop 
     \<lparr>get_group = (\<lambda>p. take 4 (host p)), is_feeler = False, groups = [],
      connected = [], loop_now = 1600000000, max_tries = 10\<rparr>
        (\<lambda>t. if t = 0
          then \<lparr>closed_now = False, tried_collision = None,
                selected_peer = (\<lambda>_. Some \<lparr>ext_peer_info = \<lparr>host = ''13.0.0.1'', port = 8444\<rparr>, last_try = 0\<rparr>),
                try_clock = 1600000000, local_now = None, try_clock_after = 1600000000\<rparr>
          else \<lparr>closed_now = False, tried_collision = None, selected_peer = (\<lambda>_. None),
                try_clock = 1600000000, local_now = None, try_clock_after = 1600000000\<rparr>) 0
        \<lparr>got_peer = False, addr = None, empty_tables = False, has_collision = False,
      local_peerinfo = Some \<lparr>host = ''13.0.0.1'', port = 8444\<rparr>, last_timestamp_local_info = 1600000000\<rparr>
      = ([SelectTriedCollision, SelectPeer False, SelectTriedCollision, SelectPeer False],
         Inr 
     \<lparr>got_peer = False, addr = Some \<lparr>host = ''13.0.0.1'', port = 8444\<rparr>, empty_tables = True, has_collision = False,
      local_peerinfo = Some \<lparr>host = ''13.0.0.1'', port = 8444\<rparr>, last_timestamp_local_info = 1600000000\<rparr>)
   \<and> dial 
     \<lparr>get_group = (\<lambda>p. take 4 (host p)), is_feeler = False, groups = [],
      connected = [], loop_now = 1600000000, max_tries = 10\<rparr> 8 0
        
     \<lparr>got_peer = False, addr = Some \<lparr>host = ''13.0.0.1'', port = 8444\<rparr>, empty_tables = True, has_collision = False,
      local_peerinfo = Some \<lparr>host = ''13.0.0.1'', port = 8444\<rparr>, last_timestamp_local_info = 1600000000\<rparr>
      = (
     \<lparr>got_peer = False, addr = Some \<lparr>host = ''13.0.0.1'', port = 8444\<rparr>, empty_tables = True, has_collision = False,
      local_peerinfo = Some \<lparr>host = ''13.0.0.1'', port = 8444\<rparr>, last_timestamp_local_info = 1600000000\<rparr>, Some (\<lparr>host = ''13.0.0.1'', port = 8444\<rparr>, False))"
  by (simp add: select_loop.simps consider_candidate_def rejected_def dial_def
        num_needed_peers_def Let_def)

section \<open>Properties of the store and the life cycle\<close>

lemma randint_range: "a \<le> b \<Longrightarrow> a \<le> randint a b raw \<and> randint a b raw \<le> b"
proof -
  assume "a \<le> b"
  then have pos: "0 < b - a + 1" by simp
  have "0 \<le> int raw mod (b - a + 1)" using pos by (rule pos_mod_sign)
  moreover have "int raw mod (b - a + 1) < b - a + 1" using pos by (rule pos_mod_bound)
  ultimately show ?thesis unfolding randint_def by linarith
qed

lemma serialize_sleeps_Cons:
  "fst (snd (periodically_serialize st (r # rounds))) =
     (if is_closed st then []
      else randint 900 1800 (draw r)
           # (case write_fails r of
                Some e \<Rightarrow> []
              | None \<Rightarrow> fst (snd (periodically_serialize
                     (st\<lparr>address_manager_store :=
                           store_serialize (address_manager st) (address_manager_store st)\<rparr>)
                     rounds))))"
  by (simp add: Let_def split: option.splits prod.splits)

lemma sleeps_in_range:
  "\<forall>i\<in>set (fst (snd (periodically_serialize st rounds))). 900 \<le> i \<and> i \<le> 1800"
proof (induction rounds arbitrary: st)
  case Nil
  show ?case by simp
next
  case (Cons r rounds)
  have range: "900 \<le> randint (15 * 60) (30 * 60) (draw r) \<and> randint (15 * 60) (30 * 60) (draw r) \<le> 1800"
    using randint_range [of "15 * 60" "30 * 60" "draw r"] by simp
  show ?case
    unfolding serialize_sleeps_Cons
    using range Cons.IH by (auto split: option.splits)
qed

lemma serialize_run_writes:
  assumes "\<not> is_closed st" and "rounds \<noteq> []" and "\<forall>r\<in>set rounds. write_fails r = None"
  shows "periodically_serialize st rounds =
     (st\<lparr>address_manager_store := Some (address_manager st)\<rparr>,
      map (\<lambda>r. randint 900 1800 (draw r)) rounds, None)"
  using assms
proof (induction rounds arbitrary: st)
  case Nil
  then show ?case by simp
next
  case (Cons r rounds)
  let ?st1 = "st\<lparr>address_manager_store := Some (address_manager st)\<rparr>"
  show ?case
  proof (cases "rounds = []")
    case True
    then show ?thesis using Cons.prems by (simp add: store_serialize_def)
  next
    case False
    have "periodically_serialize ?st1 rounds =
        (?st1\<lparr>address_manager_store := Some (address_manager ?st1)\<rparr>,
         map (\<lambda>r. randint 900 1800 (draw r)) rounds, None)"
      using Cons.IH [of ?st1] Cons.prems False by simp
    then show ?thesis using Cons.prems by (simp add: store_serialize_def)
  qed
qed


lemma serialize_closed: "is_closed st \<Longrightarrow> periodically_serialize st rounds = (st, [], None)"
  by (cases rounds) simp_all

text \<open>
  Claim C2, as the code has it. Every interval the periodic task draws lies between 15
  and 30 minutes. A turn of the task sleeps for the interval drawn and then writes the
  address manager, as it then is, to the store, and the next turn follows; a write that
  raises ends the task with the store as it was; a closed object takes no turn. Closing
  (\<^verbatim>\<open>_close_common\<close>, \<^verbatim>\<open>close\<close>, \<^verbatim>\<open>ensure_is_closed\<close>) sets the flag, cancels the tasks
  and closes the connection; it writes no snapshot, the store is as it was. Start-up
  restores the manager from the store whenever the store holds a snapshot, and starts from
  a fresh manager when it is empty.
\<close>

theorem snapshots_periodic_and_restore:
  "(900 \<le> randint (15 * 60) (30 * 60) raw \<and> randint (15 * 60) (30 * 60) raw \<le> 1800)
   \<and> (is_closed st \<longrightarrow> periodically_serialize st rounds = (st, [], None))
   \<and> (\<not> is_closed st \<and> write_fails r = None \<longrightarrow>
        periodically_serialize st (r # rounds) =
          (case periodically_serialize
                  (st\<lparr>address_manager_store := Some (address_manager st)\<rparr>) rounds of
             (st1, sleeps, escaped) \<Rightarrow>
               (st1, randint (15 * 60) (30 * 60) (draw r) # sleeps, escaped)))
   \<and> (\<not> is_closed st \<and> write_fails r = Some e \<longrightarrow>
        periodically_serialize st (r # rounds) =
          (st, [randint (15 * 60) (30 * 60) (draw r)], Some e))
   \<and> (\<not> is_closed st \<and> rounds \<noteq> [] \<and> (\<forall>r\<in>set rounds. write_fails r = None) \<longrightarrow>
        periodically_serialize st rounds =
          (st\<lparr>address_manager_store := Some (address_manager st)\<rparr>,
           map (\<lambda>r. randint (15 * 60) (30 * 60) (draw r)) rounds, None))
   \<and> address_manager_store (close_common st) = address_manager_store st
   \<and> address_manager (close_common st) = address_manager st
   \<and> is_closed (close_common st) \<and> \<not> connection_open (close_common st)
   \<and> cancelled (close_common st) =
        cancelled st @ [''connect_peers_task'', ''process_messages_task'', ''serialize_task'']
   \<and> address_manager_store (close st) = address_manager_store st
   \<and> is_closed (close st)
   \<and> cancelled (close st) =
        cancelled st @ [''connect_peers_task'', ''process_messages_task'', ''serialize_task'',
                        ''self_advertise_task'', ''address_relay_task'']
   \<and> address_manager_store (ensure_is_closed st) = address_manager_store st
   \<and> is_closed (ensure_is_closed st)
   \<and> initialize_address_manager fresh (Some snapshot) =
        Inr \<lparr>is_closed = False, address_manager = snapshot,
             address_manager_store = Some snapshot, connection_open = True, cancelled = []\<rparr>
   \<and> initialize_address_manager fresh None =
        Inr \<lparr>is_closed = False, address_manager = fresh,
             address_manager_store = None, connection_open = True, cancelled = []\<rparr>"
proof (intro conjI)
  show "900 \<le> randint (15 * 60) (30 * 60) raw"
    using randint_range [of "15 * 60" "30 * 60" raw] by simp
  show "randint (15 * 60) (30 * 60) raw \<le> 1800"
    using randint_range [of "15 * 60" "30 * 60" raw] by simp
  show "is_closed st \<longrightarrow> periodically_serialize st rounds = (st, [], None)"
    by (simp add: serialize_closed)
  show "\<not> is_closed st \<and> rounds \<noteq> [] \<and> (\<forall>r\<in>set rounds. write_fails r = None) \<longrightarrow>
        periodically_serialize st rounds =
          (st\<lparr>address_manager_store := Some (address_manager st)\<rparr>,
           map (\<lambda>r. randint (15 * 60) (30 * 60) (draw r)) rounds, None)"
    using serialize_run_writes [of st rounds] by simp
qed (simp_all add: close_common_def close_def ensure_is_closed_def initialize_address_manager_def
       store_is_empty_def store_deserialize_def store_clear_def store_serialize_def Let_def)

theorem snapshots_periodic_and_restore_witness:
  "\<not> is_closed 
       \<lparr>is_closed = False, address_manager = (1::nat), address_manager_store = Some 0,
        connection_open = True, cancelled = []\<rparr>
   \<and> write_fails \<lparr>draw = 7, write_fails = None\<rparr> = None
   \<and> list_all (\<lambda>r. write_fails r = None)
        [\<lparr>draw = 7, write_fails = None\<rparr>, \<lparr>draw = 901, write_fails = None\<rparr>]
   \<and> periodically_serialize 
       \<lparr>is_closed = False, address_manager = (1::nat), address_manager_store = Some 0,
        connection_open = True, cancelled = []\<rparr>
        [\<lparr>draw = 7, write_fails = None\<rparr>, \<lparr>draw = 901, write_fails = None\<rparr>] =
       (\<lparr>is_closed = False, address_manager = 1, address_manager_store = Some 1,
         connection_open = True, cancelled = []\<rparr>, [907, 900], None)
   \<and> write_fails \<lparr>draw = 3, write_fails = Some (Raised ''database is locked'')\<rparr>
        = Some (Raised ''database is locked'')
   \<and> periodically_serialize 
       \<lparr>is_closed = False, address_manager = (1::nat), address_manager_store = Some 0,
        connection_open = True, cancelled = []\<rparr>
        [\<lparr>draw = 3, write_fails = Some (Raised ''database is locked'')\<rparr>] =
       (
       \<lparr>is_closed = False, address_manager = (1::nat), address_manager_store = Some 0,
        connection_open = True, cancelled = []\<rparr>, [903], Some (Raised ''database is locked''))
   \<and> is_closed (close_common 
       \<lparr>is_closed = False, address_manager = (1::nat), address_manager_store = Some 0,
        connection_open = True, cancelled = []\<rparr>)
   \<and> periodically_serialize (close_common 
       \<lparr>is_closed = False, address_manager = (1::nat), address_manager_store = Some 0,
        connection_open = True, cancelled = []\<rparr>)
        [\<lparr>draw = 7, write_fails = None\<rparr>] = (close_common 
       \<lparr>is_closed = False, address_manager = (1::nat), address_manager_store = Some 0,
        connection_open = True, cancelled = []\<rparr>, [], None)"
  using snapshots_periodic_and_restore [where st = "
       \<lparr>is_closed = False, address_manager = (1::nat), address_manager_store = Some 0,
        connection_open = True, cancelled = []\<rparr>"
          and rounds = "[\<lparr>draw = 7, write_fails = None\<rparr>, \<lparr>draw = 901, write_fails = None\<rparr>]"
          and r = "\<lparr>draw = 7, write_fails = None\<rparr>"]
        snapshots_periodic_and_restore [where st = "
       \<lparr>is_closed = False, address_manager = (1::nat), address_manager_store = Some 0,
        connection_open = True, cancelled = []\<rparr>" and rounds = "[]"
          and r = "\<lparr>draw = 3, write_fails = Some (Raised ''database is locked'')\<rparr>"
          and e = "Raised ''database is locked''"]
        snapshots_periodic_and_restore [where st = "close_common 
       \<lparr>is_closed = False, address_manager = (1::nat), address_manager_store = Some 0,
        connection_open = True, cancelled = []\<rparr>"
          and rounds = "[\<lparr>draw = 7, write_fails = None\<rparr>]"]
  by (simp add: randint_def store_serialize_def close_common_def)

text \<open>
  Claim C2 as the specification words it fails on shutdown: with the manager in state 1
  and the snapshot of state 0 in the store, closing leaves the snapshot of state 0.
\<close>

theorem close_without_snapshot_counterexample:
  "address_manager (close_common 
       \<lparr>is_closed = False, address_manager = (1::nat), address_manager_store = Some 0,
        connection_open = True, cancelled = []\<rparr>) = 1
   \<and> address_manager_store (close_common 
       \<lparr>is_closed = False, address_manager = (1::nat), address_manager_store = Some 0,
        connection_open = True, cancelled = []\<rparr>) = Some 0
   \<and> is_closed (close_common 
       \<lparr>is_closed = False, address_manager = (1::nat), address_manager_store = Some 0,
        connection_open = True, cancelled = []\<rparr>)"
  by (simp add: close_common_def)

text \<open>
  Claim C3 at a failing input. The first write of the periodic task fails; the exception
  leaves the loop, the second turn never runs and the store keeps the old snapshot. The
  loop of lines 261 to 266 has no \<^verbatim>\<open>try\<close>, unlike the inbox loop, which goes through all
  its items whatever they raise.
\<close>

theorem serialize_failure_ends_loop:
  "periodically_serialize 
       \<lparr>is_closed = False, address_manager = (1::nat), address_manager_store = Some 0,
        connection_open = True, cancelled = []\<rparr>
     [\<lparr>draw = 0, write_fails = Some (Raised ''database is locked'')\<rparr>,
      \<lparr>draw = 0, write_fails = None\<rparr>] =
   (
       \<lparr>is_closed = False, address_manager = (1::nat), address_manager_store = Some 0,
        connection_open = True, cancelled = []\<rparr>, [900], Some (Raised ''database is locked''))"
  by (simp add: randint_def)

lemma process_messages_never_stops:
  "length (snd (process_messages st items)) = length items"
proof (induction items arbitrary: st)
  case Nil
  show ?case by simp
next
  case (Cons item items)
  show ?case by (subst process_messages_Cons) (simp add: Cons.IH)
qed

end
